theory Spec2Isabelle
  imports Complex_Main
begin

section \<open>The computation-graph library\<close>

text \<open>
  The models of \<^verbatim>\<open>models.py\<close> are written against the library \<^verbatim>\<open>nn\<close> and a dataset
  object, neither of which is part of the repository's sources. Both are modelled here
  from their description in the specification. Python floats are idealised as real
  numbers. A tensor is a matrix, given as the list of its rows.
\<close>

type_synonym tensor = "real list list"

datatype error = IndexError | ShapeError

definition and_then :: "error + 'a \<Rightarrow> ('a \<Rightarrow> error + 'b) \<Rightarrow> error + 'b" where
  "and_then r f = (case r of Inl e \<Rightarrow> Inl e | Inr v \<Rightarrow> f v)"

definition rect :: "nat \<Rightarrow> nat \<Rightarrow> tensor \<Rightarrow> bool" where
  "rect r c t \<longleftrightarrow> length t = r \<and> list_all (\<lambda>row. length row = c) t"

definition ncols :: "tensor \<Rightarrow> nat" where
  "ncols t = (case t of [] \<Rightarrow> 0 | row # _ \<Rightarrow> length row)"

definition is_tensor :: "tensor \<Rightarrow> bool" where
  "is_tensor t \<longleftrightarrow> rect (length t) (ncols t) t"

definition same_shape :: "tensor \<Rightarrow> tensor \<Rightarrow> bool" where
  "same_shape a b \<longleftrightarrow> is_tensor a \<and> rect (length a) (ncols a) b"

definition dot :: "real list \<Rightarrow> real list \<Rightarrow> real" where
  "dot u v = sum_list (map2 (*) u v)"

definition column :: "tensor \<Rightarrow> nat \<Rightarrow> real list" where
  "column t j = map (\<lambda>row. row ! j) t"

definition matmul :: "tensor \<Rightarrow> tensor \<Rightarrow> tensor" where
  "matmul a b = map (\<lambda>row. map (\<lambda>j. dot row (column b j)) [0..<ncols b]) a"

definition tensor_add :: "tensor \<Rightarrow> tensor \<Rightarrow> tensor" where
  "tensor_add a b = map2 (map2 (+)) a b"

definition tensor_scale :: "real \<Rightarrow> tensor \<Rightarrow> tensor" where
  "tensor_scale s t = map (map ((*) s)) t"

definition mean :: "real list \<Rightarrow> real" where
  "mean vs = sum_list vs / real (length vs)"

definition cross_entropy :: "real list \<Rightarrow> real list \<Rightarrow> real" where
  "cross_entropy logits labels =
     - sum_list (map2 (\<lambda>l y. y * (l - ln (sum_list (map exp logits)))) logits labels)"

text \<open>
  Modelled from the spec: the node constructors of \<^verbatim>\<open>nn\<close> (``dot-product,
  linear-transform, add-bias, elementwise-rectify, elementwise-add, square-loss,
  softmax-loss -- each takes node/parameter operands of compatible shapes and returns a
  new node''). A node is the expression that built it, with the data of the constants
  and parameters at its leaves.
\<close>

datatype node =
    Constant tensor
  | Parameter tensor
  | DotProduct node node
  | Linear node node
  | AddBias node node
  | Add node node
  | ReLU node
  | SquareLoss node node
  | SoftmaxLoss node node

text \<open>
  Modelled from the spec: what each constructor computes from the data of its operands
  (``shape-mismatched operands raise from the underlying library''). The dot product
  takes two row vectors of one length; the linear transform is the matrix product; the
  bias is a row vector added to every row; the square loss is the mean squared error and
  the softmax loss the mean cross-entropy of the softmax of each row.
\<close>

definition DotProduct_forward :: "tensor \<Rightarrow> tensor \<Rightarrow> error + tensor" where
  "DotProduct_forward a b =
     (if rect 1 (ncols a) a \<and> rect 1 (ncols a) b then Inr [[dot (hd a) (hd b)]]
      else Inl ShapeError)"

definition Linear_forward :: "tensor \<Rightarrow> tensor \<Rightarrow> error + tensor" where
  "Linear_forward a b =
     (if is_tensor a \<and> is_tensor b \<and> ncols a = length b then Inr (matmul a b)
      else Inl ShapeError)"

definition AddBias_forward :: "tensor \<Rightarrow> tensor \<Rightarrow> error + tensor" where
  "AddBias_forward a b =
     (if is_tensor a \<and> rect 1 (ncols a) b then Inr (map (\<lambda>row. map2 (+) row (hd b)) a)
      else Inl ShapeError)"

definition Add_forward :: "tensor \<Rightarrow> tensor \<Rightarrow> error + tensor" where
  "Add_forward a b =
     (if same_shape a b then Inr (tensor_add a b) else Inl ShapeError)"

definition ReLU_forward :: "tensor \<Rightarrow> error + tensor" where
  "ReLU_forward a = Inr (map (map (max 0)) a)"

definition SquareLoss_forward :: "tensor \<Rightarrow> tensor \<Rightarrow> error + tensor" where
  "SquareLoss_forward a b =
     (if same_shape a b then Inr [[mean (concat (map2 (map2 (\<lambda>p q. (p - q)\<^sup>2)) a b))]]
      else Inl ShapeError)"

definition SoftmaxLoss_forward :: "tensor \<Rightarrow> tensor \<Rightarrow> error + tensor" where
  "SoftmaxLoss_forward a b =
     (if same_shape a b then Inr [[mean (map2 cross_entropy a b)]] else Inl ShapeError)"

fun forward :: "node \<Rightarrow> error + tensor" where
  "forward (Constant t) = Inr t"
| "forward (Parameter t) = Inr t"
| "forward (DotProduct a b) =
     and_then (forward a) (\<lambda>ta. and_then (forward b) (\<lambda>tb. DotProduct_forward ta tb))"
| "forward (Linear a b) =
     and_then (forward a) (\<lambda>ta. and_then (forward b) (\<lambda>tb. Linear_forward ta tb))"
| "forward (AddBias a b) =
     and_then (forward a) (\<lambda>ta. and_then (forward b) (\<lambda>tb. AddBias_forward ta tb))"
| "forward (Add a b) =
     and_then (forward a) (\<lambda>ta. and_then (forward b) (\<lambda>tb. Add_forward ta tb))"
| "forward (ReLU a) = and_then (forward a) ReLU_forward"
| "forward (SquareLoss a b) =
     and_then (forward a) (\<lambda>ta. and_then (forward b) (\<lambda>tb. SquareLoss_forward ta tb))"
| "forward (SoftmaxLoss a b) =
     and_then (forward a) (\<lambda>ta. and_then (forward b) (\<lambda>tb. SoftmaxLoss_forward ta tb))"

text \<open>
  Python builds a node from the inside out and the library raises at the first
  construction whose operands do not fit. \<open>built n\<close> is the node \<open>n\<close> when every
  construction inside it succeeds, and the library's error otherwise.
\<close>

definition built :: "node \<Rightarrow> error + node" where
  "built n = and_then (forward n) (\<lambda>_. Inr n)"

text \<open>
  Modelled from the spec: ``Parameter creation: given row/column dimensions, returns a
  freshly initialized mutable tensor''. The initial entries are arbitrary and are given
  by the function \<open>init\<close>.
\<close>

definition nn_Parameter :: "nat \<Rightarrow> nat \<Rightarrow> (nat \<Rightarrow> nat \<Rightarrow> real) \<Rightarrow> tensor" where
  "nn_Parameter r c init = map (\<lambda>i. map (\<lambda>j. init i j) [0..<c]) [0..<r]"

text \<open>
  Modelled from the spec: ``Scalar extraction: given a single-element node, returns its
  numeric value''.
\<close>

definition as_scalar :: "node \<Rightarrow> error + real" where
  "as_scalar n =
     and_then (forward n) (\<lambda>t. case t of [[v]] \<Rightarrow> Inr v | _ \<Rightarrow> Inl ShapeError)"

text \<open>
  Modelled from the spec: ``Parameter update: given a direction (gradient or labeled
  example) and a scalar step size, mutates the parameter in place'', equivalent to
  \<^verbatim>\<open>parameter := parameter + s * d\<close>. The function returns the parameter's new data.
\<close>

definition Parameter_update :: "tensor \<Rightarrow> node \<Rightarrow> real \<Rightarrow> error + tensor" where
  "Parameter_update p direction multiplier =
     and_then (forward direction) (\<lambda>d.
       if same_shape p d then Inr (tensor_add p (tensor_scale multiplier d))
       else Inl ShapeError)"

text \<open>
  The gradient computation of the library (``given a loss node and an ordered list of
  parameters, returns a matching ordered list of gradient tensors'') is a parameter of
  every training loop below.
\<close>

type_synonym gradients = "node \<Rightarrow> node list \<Rightarrow> node list"

text \<open>
  Modelled from the spec: the dataset, ``\<^verbatim>\<open>iterate_once(batch_size)\<close> produces a lazy,
  restartable, finite sequence of (input, label) batch pairs covering the dataset once
  per call; \<^verbatim>\<open>get_validation_accuracy()\<close> returns a fraction'', the ``fraction of held-out
  examples correctly classified by the current parameters'' of the model \<open>'m\<close>.
\<close>

record ('x, 'm) dataset =
  iterate_once :: "nat \<Rightarrow> ('x \<times> node) list"
  get_validation_accuracy :: "'m \<Rightarrow> real"

section \<open>Python's control structures\<close>

text \<open>Indexing a list with a non-negative constant, as in \<^verbatim>\<open>xs[0]\<close>.\<close>

definition index :: "'a list \<Rightarrow> nat \<Rightarrow> error + 'a" where
  "index xs i = (if i < length xs then Inr (xs ! i) else Inl IndexError)"

text \<open>A \<^verbatim>\<open>for\<close> loop over a finite sequence whose body may raise.\<close>

fun for_each :: "('s \<Rightarrow> 'a \<Rightarrow> error + 's) \<Rightarrow> 'a list \<Rightarrow> 's \<Rightarrow> error + 's" where
  "for_each body [] s = Inr s"
| "for_each body (a # as) s = and_then (body s a) (for_each body as)"

text \<open>
  \<open>repeated n f s\<close> runs \<open>f\<close> \<open>n\<close> times in sequence from \<open>s\<close>, stopping at the first
  error. It is used to state how many passes over the dataset a training loop makes.
\<close>

primrec repeated :: "nat \<Rightarrow> ('s \<Rightarrow> error + 's) \<Rightarrow> 's \<Rightarrow> error + 's" where
  "repeated 0 f s = Inr s"
| "repeated (Suc n) f s = and_then (f s) (repeated n f)"

section \<open>PerceptronModel\<close>

record PerceptronModel =
  w :: tensor

definition PerceptronModel_init :: "nat \<Rightarrow> (nat \<Rightarrow> nat \<Rightarrow> real) \<Rightarrow> PerceptronModel" where
  "PerceptronModel_init dimensions init = \<lparr>w = nn_Parameter 1 dimensions init\<rparr>"

definition PerceptronModel_get_weights :: "PerceptronModel \<Rightarrow> node" where
  "PerceptronModel_get_weights m = Parameter (w m)"

definition PerceptronModel_run :: "PerceptronModel \<Rightarrow> node \<Rightarrow> error + node" where
  "PerceptronModel_run m x = built (DotProduct (Parameter (w m)) x)"

definition PerceptronModel_get_prediction :: "PerceptronModel \<Rightarrow> node \<Rightarrow> error + int" where
  "PerceptronModel_get_prediction m x =
     and_then (PerceptronModel_run m x) (\<lambda>score.
     and_then (as_scalar score) (\<lambda>s.
       if s \<ge> 0.0 then Inr 1 else Inr (- 1)))"

text \<open>The body of the \<^verbatim>\<open>for\<close> loop of \<^verbatim>\<open>train\<close>, on the model and the flag \<^verbatim>\<open>outcome\<close>.\<close>

definition PerceptronModel_train_body ::
  "PerceptronModel \<times> bool \<Rightarrow> node \<times> node \<Rightarrow> error + PerceptronModel \<times> bool" where
  "PerceptronModel_train_body st xy =
     (case st of (m, outcome) \<Rightarrow> case xy of (x, y) \<Rightarrow>
        and_then (as_scalar y) (\<lambda>label.
        and_then (PerceptronModel_get_prediction m x) (\<lambda>prediction.
          if label \<noteq> of_int prediction
          then and_then (Parameter_update (w m) x label) (\<lambda>w'. Inr (m\<lparr>w := w'\<rparr>, False))
          else Inr (m, outcome))))"

text \<open>One turn of the \<^verbatim>\<open>while\<close> loop: a full pass over the dataset, one sample at a time.\<close>

definition PerceptronModel_pass ::
  "(node, 'm) dataset \<Rightarrow> PerceptronModel \<Rightarrow> error + PerceptronModel \<times> bool" where
  "PerceptronModel_pass dataset m =
     for_each PerceptronModel_train_body (iterate_once dataset 1) (m, True)"

partial_function (option) PerceptronModel_train ::
  "(node, 'm) dataset \<Rightarrow> PerceptronModel \<Rightarrow> (error + PerceptronModel) option" where
  "PerceptronModel_train dataset m =
     (case PerceptronModel_pass dataset m of
        Inl e \<Rightarrow> Some (Inl e)
      | Inr (m', outcome) \<Rightarrow>
          if outcome then Some (Inr m') else PerceptronModel_train dataset m')"

text \<open>The model after a pass, without the flag.\<close>

definition PerceptronModel_after_pass ::
  "(node, 'm) dataset \<Rightarrow> PerceptronModel \<Rightarrow> error + PerceptronModel" where
  "PerceptronModel_after_pass dataset m =
     and_then (PerceptronModel_pass dataset m) (\<lambda>(m', outcome). Inr m')"

text \<open>
  A sample is classified correctly by \<open>m\<close> when its label and the prediction for it can
  both be computed and are equal.
\<close>

definition PerceptronModel_correct :: "PerceptronModel \<Rightarrow> node \<times> node \<Rightarrow> bool" where
  "PerceptronModel_correct m xy =
     (case xy of (x, y) \<Rightarrow>
        (case as_scalar y of Inl _ \<Rightarrow> False
         | Inr label \<Rightarrow>
            (case PerceptronModel_get_prediction m x of Inl _ \<Rightarrow> False
             | Inr prediction \<Rightarrow> label = of_int prediction)))"

section \<open>RegressionModel\<close>

record RegressionModel =
  batch_size :: nat
  weight1 :: tensor
  bias1 :: tensor
  weight2 :: tensor
  bias2 :: tensor
  learning_rate :: real

definition RegressionModel_init ::
  "(nat \<Rightarrow> nat \<Rightarrow> real) \<Rightarrow> (nat \<Rightarrow> nat \<Rightarrow> real) \<Rightarrow> (nat \<Rightarrow> nat \<Rightarrow> real) \<Rightarrow> (nat \<Rightarrow> nat \<Rightarrow> real) \<Rightarrow>
   RegressionModel" where
  "RegressionModel_init init1 init2 init3 init4 =
     (let X = 100 in
      \<lparr>RegressionModel.batch_size = 10,
       weight1 = nn_Parameter 1 X init1,
       bias1 = nn_Parameter 1 X init2,
       weight2 = nn_Parameter X 1 init3,
       bias2 = nn_Parameter 1 1 init4,
       learning_rate = - 0.02\<rparr>)"

definition RegressionModel_run :: "RegressionModel \<Rightarrow> node \<Rightarrow> error + node" where
  "RegressionModel_run m x =
     built (AddBias (Linear (ReLU (AddBias (Linear x (Parameter (RegressionModel.weight1 m)))
                                           (Parameter (RegressionModel.bias1 m))))
                            (Parameter (RegressionModel.weight2 m)))
                    (Parameter (RegressionModel.bias2 m)))"

definition RegressionModel_get_loss :: "RegressionModel \<Rightarrow> node \<Rightarrow> node \<Rightarrow> error + node" where
  "RegressionModel_get_loss m x y =
     and_then (RegressionModel_run m x) (\<lambda>prediction. built (SquareLoss prediction y))"

text \<open>The body of the inner \<^verbatim>\<open>for\<close> loop of \<^verbatim>\<open>train\<close>: one batch.\<close>

definition RegressionModel_train_body ::
  "gradients \<Rightarrow> RegressionModel \<Rightarrow> node \<times> node \<Rightarrow> error + RegressionModel" where
  "RegressionModel_train_body nn_gradients m xy =
     (case xy of (x, y) \<Rightarrow>
        and_then (RegressionModel_get_loss m x y) (\<lambda>loss.
          let gradients = nn_gradients loss
                [Parameter (RegressionModel.weight1 m), Parameter (RegressionModel.weight2 m),
                 Parameter (RegressionModel.bias1 m), Parameter (RegressionModel.bias2 m)]
          in
          and_then (index gradients 0) (\<lambda>g0.
          and_then (Parameter_update (RegressionModel.weight1 m) g0
                      (RegressionModel.learning_rate m)) (\<lambda>w1.
          and_then (index gradients 1) (\<lambda>g1.
          and_then (Parameter_update (RegressionModel.weight2 m) g1
                      (RegressionModel.learning_rate m)) (\<lambda>w2.
          and_then (index gradients 2) (\<lambda>g2.
          and_then (Parameter_update (RegressionModel.bias1 m) g2
                      (RegressionModel.learning_rate m)) (\<lambda>b1.
          and_then (index gradients 3) (\<lambda>g3.
          and_then (Parameter_update (RegressionModel.bias2 m) g3
                      (RegressionModel.learning_rate m)) (\<lambda>b2.
            Inr (m\<lparr>RegressionModel.weight1 := w1, RegressionModel.weight2 := w2,
                    RegressionModel.bias1 := b1, RegressionModel.bias2 := b2\<rparr>)))))))))))"

text \<open>One turn of the outer loop: the batches of size 10 of the dataset, in order.\<close>

definition RegressionModel_epoch ::
  "gradients \<Rightarrow> (node, 'm) dataset \<Rightarrow> RegressionModel \<Rightarrow> error + RegressionModel" where
  "RegressionModel_epoch nn_gradients dataset m =
     for_each (RegressionModel_train_body nn_gradients) (iterate_once dataset 10) m"

definition RegressionModel_train ::
  "gradients \<Rightarrow> (node, 'm) dataset \<Rightarrow> RegressionModel \<Rightarrow> error + RegressionModel" where
  "RegressionModel_train nn_gradients dataset m =
     for_each (\<lambda>m' i. RegressionModel_epoch nn_gradients dataset m') [0..<1000] m"

section \<open>DigitClassificationModel\<close>

record DigitClassificationModel =
  batch_size :: nat
  weight1 :: tensor
  bias1 :: tensor
  weight2 :: tensor
  bias2 :: tensor
  learning_rate :: real

definition DigitClassificationModel_init ::
  "(nat \<Rightarrow> nat \<Rightarrow> real) \<Rightarrow> (nat \<Rightarrow> nat \<Rightarrow> real) \<Rightarrow> (nat \<Rightarrow> nat \<Rightarrow> real) \<Rightarrow> (nat \<Rightarrow> nat \<Rightarrow> real) \<Rightarrow>
   DigitClassificationModel" where
  "DigitClassificationModel_init init1 init2 init3 init4 =
     (let X = 100 in
      \<lparr>DigitClassificationModel.batch_size = 10,
       weight1 = nn_Parameter 784 X init1,
       bias1 = nn_Parameter 1 X init2,
       weight2 = nn_Parameter X 10 init3,
       bias2 = nn_Parameter 1 10 init4,
       learning_rate = - 0.02\<rparr>)"

definition DigitClassificationModel_run ::
  "DigitClassificationModel \<Rightarrow> node \<Rightarrow> error + node" where
  "DigitClassificationModel_run m x =
     (let first = Linear x (Parameter (DigitClassificationModel.weight1 m));
          rectified = ReLU (AddBias first (Parameter (DigitClassificationModel.bias1 m)));
          second = Linear rectified (Parameter (DigitClassificationModel.weight2 m))
      in built (AddBias second (Parameter (DigitClassificationModel.bias2 m))))"

definition DigitClassificationModel_get_loss ::
  "DigitClassificationModel \<Rightarrow> node \<Rightarrow> node \<Rightarrow> error + node" where
  "DigitClassificationModel_get_loss m x y =
     and_then (DigitClassificationModel_run m x) (\<lambda>logits. built (SoftmaxLoss logits y))"

definition DigitClassificationModel_train_body ::
  "gradients \<Rightarrow> DigitClassificationModel \<Rightarrow> node \<times> node \<Rightarrow> error + DigitClassificationModel"
  where
  "DigitClassificationModel_train_body nn_gradients m xy =
     (case xy of (x, y) \<Rightarrow>
        and_then (DigitClassificationModel_get_loss m x y) (\<lambda>loss.
          let gradients = nn_gradients loss
                [Parameter (DigitClassificationModel.weight1 m),
                 Parameter (DigitClassificationModel.weight2 m),
                 Parameter (DigitClassificationModel.bias1 m),
                 Parameter (DigitClassificationModel.bias2 m)]
          in
          and_then (index gradients 0) (\<lambda>g0.
          and_then (Parameter_update (DigitClassificationModel.weight1 m) g0
                      (DigitClassificationModel.learning_rate m)) (\<lambda>w1.
          and_then (index gradients 1) (\<lambda>g1.
          and_then (Parameter_update (DigitClassificationModel.weight2 m) g1
                      (DigitClassificationModel.learning_rate m)) (\<lambda>w2.
          and_then (index gradients 2) (\<lambda>g2.
          and_then (Parameter_update (DigitClassificationModel.bias1 m) g2
                      (DigitClassificationModel.learning_rate m)) (\<lambda>b1.
          and_then (index gradients 3) (\<lambda>g3.
          and_then (Parameter_update (DigitClassificationModel.bias2 m) g3
                      (DigitClassificationModel.learning_rate m)) (\<lambda>b2.
            Inr (m\<lparr>DigitClassificationModel.weight1 := w1,
                    DigitClassificationModel.weight2 := w2,
                    DigitClassificationModel.bias1 := b1,
                    DigitClassificationModel.bias2 := b2\<rparr>)))))))))))"

text \<open>One turn of the outer loop up to the accuracy check: the batches of the dataset.\<close>

definition DigitClassificationModel_epoch ::
  "gradients \<Rightarrow> (node, DigitClassificationModel) dataset \<Rightarrow> DigitClassificationModel \<Rightarrow>
   error + DigitClassificationModel" where
  "DigitClassificationModel_epoch nn_gradients dataset m =
     for_each (DigitClassificationModel_train_body nn_gradients)
       (iterate_once dataset (DigitClassificationModel.batch_size m)) m"

text \<open>The outer loop over the values of \<^verbatim>\<open>i\<close> still to come, with its early return.\<close>

fun DigitClassificationModel_train_loop ::
  "gradients \<Rightarrow> (node, DigitClassificationModel) dataset \<Rightarrow> nat list \<Rightarrow>
   DigitClassificationModel \<Rightarrow> error + DigitClassificationModel" where
  "DigitClassificationModel_train_loop nn_gradients dataset [] m = Inr m"
| "DigitClassificationModel_train_loop nn_gradients dataset (i # rest) m =
     and_then (DigitClassificationModel_epoch nn_gradients dataset m) (\<lambda>m'.
       if get_validation_accuracy dataset m' \<ge> 0.97 then Inr m'
       else DigitClassificationModel_train_loop nn_gradients dataset rest m')"

definition DigitClassificationModel_train ::
  "gradients \<Rightarrow> (node, DigitClassificationModel) dataset \<Rightarrow> DigitClassificationModel \<Rightarrow>
   error + DigitClassificationModel" where
  "DigitClassificationModel_train nn_gradients dataset m =
     DigitClassificationModel_train_loop nn_gradients dataset [0..<2000] m"

section \<open>LanguageIDModel\<close>

record LanguageIDModel =
  num_chars :: nat
  languages :: "string list"
  learning_rate :: real
  batch_size :: nat
  weight :: tensor
  weight_h :: tensor
  weight_f :: tensor

definition LanguageIDModel_init ::
  "(nat \<Rightarrow> nat \<Rightarrow> real) \<Rightarrow> (nat \<Rightarrow> nat \<Rightarrow> real) \<Rightarrow> (nat \<Rightarrow> nat \<Rightarrow> real) \<Rightarrow> LanguageIDModel" where
  "LanguageIDModel_init init1 init2 init3 =
     (let num_chars = 47; hidden = 300; dimension = 5 in
      \<lparr>num_chars = num_chars,
       languages = [''English'', ''Spanish'', ''Finnish'', ''Dutch'', ''Polish''],
       learning_rate = - 0.005,
       batch_size = 2,
       weight = nn_Parameter num_chars hidden init1,
       weight_h = nn_Parameter hidden hidden init2,
       weight_f = nn_Parameter hidden dimension init3\<rparr>)"

definition LanguageIDModel_run :: "LanguageIDModel \<Rightarrow> node list \<Rightarrow> error + node" where
  "LanguageIDModel_run m xs =
     and_then (index xs 0) (\<lambda>x0.
       let first = Linear x0 (Parameter (weight m));
           first = foldl (\<lambda>first node.
                     ReLU (Add (Linear node (Parameter (weight m)))
                               (Linear first (Parameter (weight_h m)))))
                   first (drop 1 xs)
       in built (Linear first (Parameter (weight_f m))))"

definition LanguageIDModel_get_loss ::
  "LanguageIDModel \<Rightarrow> node list \<Rightarrow> node \<Rightarrow> error + node" where
  "LanguageIDModel_get_loss m xs y =
     and_then (LanguageIDModel_run m xs) (\<lambda>logits. built (SoftmaxLoss logits y))"

definition LanguageIDModel_train_body ::
  "gradients \<Rightarrow> LanguageIDModel \<Rightarrow> node list \<times> node \<Rightarrow> error + LanguageIDModel" where
  "LanguageIDModel_train_body nn_gradients m xy =
     (case xy of (x, y) \<Rightarrow>
        and_then (LanguageIDModel_get_loss m x y) (\<lambda>loss.
          let gradients = nn_gradients loss
                [Parameter (weight m), Parameter (weight_h m), Parameter (weight_f m)]
          in
          and_then (index gradients 0) (\<lambda>g0.
          and_then (Parameter_update (weight m) g0 (learning_rate m)) (\<lambda>w0.
          and_then (index gradients 1) (\<lambda>g1.
          and_then (Parameter_update (weight_h m) g1 (learning_rate m)) (\<lambda>w1.
          and_then (index gradients 2) (\<lambda>g2.
          and_then (Parameter_update (weight_f m) g2 (learning_rate m)) (\<lambda>w2.
            Inr (m\<lparr>weight := w0, weight_h := w1, weight_f := w2\<rparr>)))))))))"

text \<open>One turn of the \<^verbatim>\<open>while\<close> loop up to the accuracy check.\<close>

definition LanguageIDModel_epoch ::
  "gradients \<Rightarrow> (node list, LanguageIDModel) dataset \<Rightarrow> LanguageIDModel \<Rightarrow>
   error + LanguageIDModel" where
  "LanguageIDModel_epoch nn_gradients dataset m =
     for_each (LanguageIDModel_train_body nn_gradients) (iterate_once dataset (batch_size m)) m"

partial_function (option) LanguageIDModel_train ::
  "gradients \<Rightarrow> (node list, LanguageIDModel) dataset \<Rightarrow> LanguageIDModel \<Rightarrow>
   (error + LanguageIDModel) option" where
  "LanguageIDModel_train nn_gradients dataset m =
     (case LanguageIDModel_epoch nn_gradients dataset m of
        Inl e \<Rightarrow> Some (Inl e)
      | Inr m' \<Rightarrow>
          if get_validation_accuracy dataset m' \<ge> 0.82 then Some (Inr m')
          else LanguageIDModel_train nn_gradients dataset m')"

text \<open>
  The recurrence of the specification: the hidden state at step 0 is a linear transform
  of the first character, and at each later step it is the rectified sum of a linear
  transform of the current character and one of the previous hidden state.
\<close>

primrec hidden_state :: "LanguageIDModel \<Rightarrow> node list \<Rightarrow> nat \<Rightarrow> node" where
  "hidden_state m xs 0 = Linear (xs ! 0) (Parameter (weight m))"
| "hidden_state m xs (Suc t) =
     ReLU (Add (Linear (xs ! Suc t) (Parameter (weight m)))
               (Linear (hidden_state m xs t) (Parameter (weight_h m))))"

section \<open>The library: shapes and updates\<close>

lemma and_then_simps:
  "and_then (Inl e) f = Inl e"
  "and_then (Inr v) f = f v"
  by (simp_all add: and_then_def)

lemma row_add_zero:
  "length u = length v \<Longrightarrow> map2 (+) u (map ((*) (0::real)) v) = u"
  by (induction u v rule: list_induct2) simp_all

lemma tensor_add_scale_zero:
  "length p = length d \<Longrightarrow> list_all (\<lambda>row. length row = c) p \<Longrightarrow>
   list_all (\<lambda>row. length row = c) d \<Longrightarrow> tensor_add p (tensor_scale 0 d) = p"
proof (induction p d rule: list_induct2)
  case Nil
  then show ?case by (simp add: tensor_add_def tensor_scale_def)
next
  case (Cons u p v d)
  then have "length u = length v" by simp
  then have "map2 (+) u (map ((*) (0::real)) v) = u" by (rule row_add_zero)
  moreover have "tensor_add p (tensor_scale 0 d) = p" using Cons by simp
  ultimately show ?case by (simp add: tensor_add_def tensor_scale_def)
qed

lemma same_shape_add_scale_zero:
  "same_shape p d \<Longrightarrow> tensor_add p (tensor_scale 0 d) = p"
  unfolding same_shape_def is_tensor_def rect_def
  by (rule tensor_add_scale_zero [where c = "ncols p"]) simp_all

text \<open>
  C8. An update with direction \<open>d\<close> and step size \<open>s\<close> turns the parameter \<open>p\<close> into
  \<open>p + s * d\<close>: it does so whenever the direction has the parameter's shape, and
  whenever it returns a parameter at all, that parameter is \<open>p + s * d\<close>. With step size 0
  the parameter is left as it is, for every parameter and every direction.
\<close>

theorem Parameter_update_adds_scaled_direction:
  "(forward direction = Inr d \<and> same_shape p d \<longrightarrow>
      Parameter_update p direction s = Inr (tensor_add p (tensor_scale s d)) \<and>
      Parameter_update p direction 0 = Inr p) \<and>
   (Parameter_update p direction s = Inr p' \<longrightarrow>
      (\<exists>d'. forward direction = Inr d' \<and> p' = tensor_add p (tensor_scale s d'))) \<and>
   (Parameter_update p direction 0 = Inr p' \<longrightarrow> p' = p)"
proof (intro conjI impI)
  assume a: "forward direction = Inr d \<and> same_shape p d"
  then show "Parameter_update p direction s = Inr (tensor_add p (tensor_scale s d))"
    by (simp add: Parameter_update_def and_then_simps)
  from a show "Parameter_update p direction 0 = Inr p"
    by (simp add: Parameter_update_def and_then_simps same_shape_add_scale_zero)
next
  assume "Parameter_update p direction s = Inr p'"
  then show "\<exists>d'. forward direction = Inr d' \<and> p' = tensor_add p (tensor_scale s d')"
    by (auto simp: Parameter_update_def and_then_def split: sum.splits if_splits)
next
  assume "Parameter_update p direction 0 = Inr p'"
  then show "p' = p"
    by (auto simp: Parameter_update_def and_then_def same_shape_add_scale_zero
        split: sum.splits if_splits)
qed

theorem Parameter_update_adds_scaled_direction_witness:
  "forward (Constant [[3, 4]]) = Inr [[3, 4]] \<and> same_shape [[1, 2]] [[3, 4]] \<and>
   Parameter_update [[1, 2]] (Constant [[3, 4]]) 2 = Inr [[7, 10]] \<and>
   Parameter_update [[1, 2]] (Constant [[3, 4]]) 0 = Inr [[1, 2]]"
proof -
  have h: "forward (Constant [[3, 4]]) = Inr [[3, 4]] \<and> same_shape [[1, 2]] [[3, 4]]"
    by (simp add: same_shape_def is_tensor_def rect_def ncols_def)
  have v: "tensor_add [[1, 2]] (tensor_scale 2 [[3, 4]]) = [[7, 10]]"
    by (simp add: tensor_add_def tensor_scale_def)
  from h Parameter_update_adds_scaled_direction
      [where direction = "Constant [[3, 4]]" and d = "[[3, 4]]" and p = "[[1, 2]]" and s = 2
         and p' = "[[1, 2]]"]
  have "Parameter_update [[1, 2]] (Constant [[3, 4]]) 2 =
          Inr (tensor_add [[1, 2]] (tensor_scale 2 [[3, 4]])) \<and>
        Parameter_update [[1, 2]] (Constant [[3, 4]]) 0 = Inr [[1, 2]]"
    by blast
  with h v show ?thesis by simp
qed

lemma forward_error: "forward n = Inl e \<Longrightarrow> e = ShapeError"
proof (induction n arbitrary: e)
  case (DotProduct a b)
  then show ?case
    by (auto simp: and_then_def DotProduct_forward_def split: sum.splits if_splits)
next
  case (Linear a b)
  then show ?case
    by (auto simp: and_then_def Linear_forward_def split: sum.splits if_splits)
next
  case (AddBias a b)
  then show ?case
    by (auto simp: and_then_def AddBias_forward_def split: sum.splits if_splits)
next
  case (Add a b)
  then show ?case
    by (auto simp: and_then_def Add_forward_def split: sum.splits if_splits)
next
  case (ReLU a)
  then show ?case
    by (auto simp: and_then_def ReLU_forward_def split: sum.splits if_splits)
next
  case (SquareLoss a b)
  then show ?case
    by (auto simp: and_then_def SquareLoss_forward_def split: sum.splits if_splits)
next
  case (SoftmaxLoss a b)
  then show ?case
    by (auto simp: and_then_def SoftmaxLoss_forward_def split: sum.splits if_splits)
qed simp_all

lemma built_error: "built n = Inl e \<Longrightarrow> e = ShapeError"
  by (auto simp: built_def and_then_def split: sum.splits dest: forward_error)

lemma built_Inr: "built n = Inr n' \<Longrightarrow> n' = n \<and> (\<exists>t. forward n = Inr t)"
  by (auto simp: built_def and_then_def split: sum.splits)

lemma rect_ncols: "rect r c a \<Longrightarrow> 0 < r \<Longrightarrow> ncols a = c"
  by (cases a) (auto simp: rect_def ncols_def)

lemma rect_is_tensor: "rect r c a \<Longrightarrow> 0 < r \<Longrightarrow> is_tensor a"
  using rect_ncols [of r c a] by (auto simp: is_tensor_def rect_def)

lemma rect_matmul: "length a = r \<Longrightarrow> ncols b = c \<Longrightarrow> rect r c (matmul a b)"
  by (simp add: rect_def matmul_def list_all_iff)

lemma Linear_forward_rect:
  assumes "rect r k a" "rect k c b" "0 < r" "0 < k"
  shows "Linear_forward a b = Inr (matmul a b) \<and> rect r c (matmul a b)"
proof -
  have "is_tensor a" "is_tensor b" "ncols a = k" "ncols b = c" "length b = k" "length a = r"
    using assms by (auto simp: rect_is_tensor rect_ncols simp: rect_def)
  then show ?thesis
    by (simp add: Linear_forward_def rect_matmul)
qed

lemma rect_tensor_add:
  "rect r c a \<Longrightarrow> rect r c b \<Longrightarrow> rect r c (tensor_add a b)"
  by (auto simp: rect_def tensor_add_def list_all_iff dest!: set_zip_leftD set_zip_rightD
      elim!: in_set_zipE)

lemma rect_tensor_scale: "rect r c a \<Longrightarrow> rect r c (tensor_scale s a)"
  by (auto simp: rect_def tensor_scale_def list_all_iff)

lemma Add_forward_rect:
  assumes "rect r c a" "rect r c b" "0 < r"
  shows "Add_forward a b = Inr (tensor_add a b) \<and> rect r c (tensor_add a b)"
proof -
  have "same_shape a b"
    using assms rect_is_tensor [of r c a] rect_ncols [of r c a]
    by (auto simp: same_shape_def rect_def)
  with assms show ?thesis
    by (simp add: Add_forward_def rect_tensor_add)
qed

lemma ReLU_forward_rect:
  "rect r c a \<Longrightarrow> ReLU_forward a = Inr (map (map (max 0)) a) \<and> rect r c (map (map (max 0)) a)"
  by (auto simp: ReLU_forward_def rect_def list_all_iff)

lemma rect_nn_Parameter: "rect r c (nn_Parameter r c init)"
  by (simp add: rect_def nn_Parameter_def list_all_iff)

lemma Parameter_update_rect:
  assumes "Parameter_update p direction s = Inr p'" "rect r c p"
  shows "rect r c p'"
proof -
  from assms(1) obtain d where d: "same_shape p d" "p' = tensor_add p (tensor_scale s d)"
    by (auto simp: Parameter_update_def and_then_def split: sum.splits if_splits)
  show ?thesis
  proof (cases "0 < r")
    case True
    with assms(2) have "ncols p = c" "length p = r" by (auto simp: rect_ncols rect_def)
    with d(1) have "rect r c d" by (simp add: same_shape_def)
    with assms(2) d(2) show ?thesis by (simp add: rect_tensor_add rect_tensor_scale)
  next
    case False
    with assms(2) have "p = []" by (simp add: rect_def)
    with d(2) assms(2) show ?thesis by (simp add: tensor_add_def)
  qed
qed

section \<open>Loops\<close>

lemma and_then_Inr_iff:
  "and_then r f = Inr v \<longleftrightarrow> (\<exists>u. r = Inr u \<and> f u = Inr v)"
  by (cases r) (simp_all add: and_then_simps)

lemma index_Inr_iff: "index xs i = Inr v \<longleftrightarrow> i < length xs \<and> v = xs ! i"
  by (auto simp: index_def)

lemma for_each_const_body:
  "for_each (\<lambda>s a. f s) xs s = repeated (length xs) f s"
proof (induction xs arbitrary: s)
  case Nil
  then show ?case by simp
next
  case (Cons a xs)
  have "for_each (\<lambda>s a. f s) xs = repeated (length xs) f"
    by (rule ext) (rule Cons.IH)
  then show ?case by simp
qed

lemma repeated_one: "repeated (Suc 0) f s = f s"
  by (cases "f s") (simp_all add: and_then_simps)

lemma repeated_fixed: "f s = Inr s \<Longrightarrow> repeated n f s = Inr s"
  by (induction n) (simp_all add: and_then_simps)

lemma repeated_snoc: "repeated (Suc n) f s = and_then (repeated n f s) f"
proof (induction n arbitrary: s)
  case 0
  show ?case by (cases "f s") (simp_all add: and_then_simps)
next
  case (Suc n)
  show ?case
  proof (cases "f s")
    case (Inl e)
    then show ?thesis by (simp add: and_then_simps)
  next
    case (Inr s')
    with Suc [of s'] show ?thesis by (simp add: and_then_simps)
  qed
qed

lemmas nn_eval =
  and_then_simps built_def as_scalar_def index_def Parameter_update_def
  DotProduct_forward_def Linear_forward_def AddBias_forward_def Add_forward_def
  ReLU_forward_def SquareLoss_forward_def SoftmaxLoss_forward_def
  rect_def ncols_def is_tensor_def same_shape_def dot_def column_def matmul_def
  tensor_add_def tensor_scale_def

section \<open>PerceptronModel: prediction and training\<close>

text \<open>
  C2. For every model and input, \<open>get_prediction\<close> returns +1 exactly when the score
  computed by \<open>run\<close> is at least 0 and -1 otherwise, it never returns another value, and
  for a weight vector and a single sample of one dimension the score is their dot
  product.
\<close>

theorem PerceptronModel_get_prediction_run:
  "(PerceptronModel_run m x = Inr score \<and> as_scalar score = Inr s \<longrightarrow>
      PerceptronModel_get_prediction m x = Inr (if s \<ge> 0.0 then 1 else - 1)) \<and>
   (PerceptronModel_get_prediction m x = Inr p \<longrightarrow>
      (p = 1 \<or> p = - 1) \<and>
      (\<exists>score s. PerceptronModel_run m x = Inr score \<and> as_scalar score = Inr s \<and>
         (p = 1 \<longleftrightarrow> s \<ge> 0.0))) \<and>
   (rect 1 d (w m) \<and> forward x = Inr xt \<and> rect 1 d xt \<longrightarrow>
      PerceptronModel_run m x = Inr (DotProduct (Parameter (w m)) x) \<and>
      as_scalar (DotProduct (Parameter (w m)) x) = Inr (dot (hd (w m)) (hd xt)) \<and>
      PerceptronModel_get_prediction m x =
        Inr (if dot (hd (w m)) (hd xt) \<ge> 0.0 then 1 else - 1))"
proof (intro conjI impI)
  show "PerceptronModel_get_prediction m x = Inr (if s \<ge> 0.0 then 1 else - 1)"
    if "PerceptronModel_run m x = Inr score \<and> as_scalar score = Inr s"
    using that by (simp add: PerceptronModel_get_prediction_def and_then_simps)
next
  assume a: "PerceptronModel_get_prediction m x = Inr p"
  show "p = 1 \<or> p = - 1"
    using a by (auto simp: PerceptronModel_get_prediction_def and_then_def
        split: sum.splits if_splits)
  show "\<exists>score s. PerceptronModel_run m x = Inr score \<and> as_scalar score = Inr s \<and>
         (p = 1 \<longleftrightarrow> s \<ge> 0.0)"
    using a by (auto simp: PerceptronModel_get_prediction_def and_then_def
        split: sum.splits if_splits)
next
  assume a: "rect 1 d (w m) \<and> forward x = Inr xt \<and> rect 1 d xt"
  then have nc: "ncols (w m) = d"
    by (cases "w m") (auto simp: rect_def ncols_def)
  have f: "forward (DotProduct (Parameter (w m)) x) = Inr [[dot (hd (w m)) (hd xt)]]"
    using a nc by (simp add: and_then_simps DotProduct_forward_def)
  show r: "PerceptronModel_run m x = Inr (DotProduct (Parameter (w m)) x)"
    using f by (simp add: PerceptronModel_run_def built_def and_then_simps)
  show s: "as_scalar (DotProduct (Parameter (w m)) x) = Inr (dot (hd (w m)) (hd xt))"
    using f by (simp add: as_scalar_def and_then_simps)
  show "PerceptronModel_get_prediction m x =
        Inr (if dot (hd (w m)) (hd xt) \<ge> 0.0 then 1 else - 1)"
    using r s by (simp add: PerceptronModel_get_prediction_def and_then_simps)
qed

theorem PerceptronModel_get_prediction_run_witness:
  "rect 1 2 (w \<lparr>w = [[1, 2]]\<rparr>) \<and> forward (Constant [[3, - 1]]) = Inr [[3, - 1]] \<and>
   rect 1 2 [[3, - 1]] \<and>
   PerceptronModel_run \<lparr>w = [[1, 2]]\<rparr> (Constant [[3, - 1]]) =
     Inr (DotProduct (Parameter [[1, 2]]) (Constant [[3, - 1]])) \<and>
   as_scalar (DotProduct (Parameter [[1, 2]]) (Constant [[3, - 1]])) = Inr 1 \<and>
   PerceptronModel_get_prediction \<lparr>w = [[1, 2]]\<rparr> (Constant [[3, - 1]]) = Inr 1 \<and>
   PerceptronModel_get_prediction \<lparr>w = [[1, 2]]\<rparr> (Constant [[1, - 1]]) = Inr (- 1)"
proof -
  have h: "rect 1 2 (w \<lparr>w = [[1, 2]]\<rparr>) \<and> forward (Constant [[3, - 1]]) = Inr [[3, - 1]] \<and>
      rect 1 2 [[3, - 1]]"
    by (simp add: rect_def)
  have h': "rect 1 2 (w \<lparr>w = [[1, 2]]\<rparr>) \<and> forward (Constant [[1, - 1]]) = Inr [[1, - 1]] \<and>
      rect 1 2 [[1, - 1]]"
    by (simp add: rect_def)
  show ?thesis
    using h h'
      PerceptronModel_get_prediction_run
        [where m = "\<lparr>w = [[1, 2]]\<rparr>" and x = "Constant [[3, - 1]]" and d = 2
           and xt = "[[3, - 1]]"]
      PerceptronModel_get_prediction_run
        [where m = "\<lparr>w = [[1, 2]]\<rparr>" and x = "Constant [[1, - 1]]" and d = 2
           and xt = "[[1, - 1]]"]
    by (simp add: dot_def)
qed

lemma PerceptronModel_get_prediction_shape:
  assumes "PerceptronModel_get_prediction m x = Inr p"
  shows "\<exists>xt. forward x = Inr xt \<and> same_shape (w m) xt"
proof -
  from assms obtain xt r where xt: "forward x = Inr xt" "DotProduct_forward (w m) xt = Inr r"
    by (auto simp: PerceptronModel_get_prediction_def PerceptronModel_run_def built_def
        and_then_Inr_iff)
  then have "rect 1 (ncols (w m)) (w m)" "rect 1 (ncols (w m)) xt"
    by (auto simp: DotProduct_forward_def split: if_splits)
  then have "same_shape (w m) xt"
    by (simp add: same_shape_def is_tensor_def rect_def)
  with xt show ?thesis by blast
qed

lemma PerceptronModel_train_body_correct:
  "PerceptronModel_correct m (x, y) \<Longrightarrow>
   PerceptronModel_train_body (m, outcome) (x, y) = Inr (m, outcome)"
  by (auto simp: PerceptronModel_correct_def PerceptronModel_train_body_def and_then_simps
      split: sum.splits)

lemma PerceptronModel_train_body_misclassified:
  assumes "as_scalar y = Inr label" "PerceptronModel_get_prediction m x = Inr p"
    "label \<noteq> of_int p"
  shows "\<exists>xt. forward x = Inr xt \<and>
     PerceptronModel_train_body (m, outcome) (x, y) =
       Inr (m\<lparr>w := tensor_add (w m) (tensor_scale label xt)\<rparr>, False)"
proof -
  from PerceptronModel_get_prediction_shape [OF assms(2)] obtain xt where
    xt: "forward x = Inr xt" "same_shape (w m) xt" by blast
  then have "Parameter_update (w m) x label = Inr (tensor_add (w m) (tensor_scale label xt))"
    by (simp add: Parameter_update_def and_then_simps)
  with assms xt(1) show ?thesis
    by (simp add: PerceptronModel_train_body_def and_then_simps)
qed

lemma PerceptronModel_train_body_flag:
  assumes "PerceptronModel_train_body (m, outcome) (x, y) = Inr (m', True)"
  shows "m' = m \<and> outcome \<and> PerceptronModel_correct m (x, y)"
  using assms
  by (auto simp: PerceptronModel_train_body_def PerceptronModel_correct_def and_then_Inr_iff
      split: if_splits)

lemma for_each_all_correct:
  "list_all (PerceptronModel_correct m) bs \<Longrightarrow>
   for_each PerceptronModel_train_body bs (m, outcome) = Inr (m, outcome)"
proof (induction bs)
  case Nil
  then show ?case by simp
next
  case (Cons xy bs)
  obtain x y where xy: "xy = (x, y)" by (cases xy)
  from Cons show ?case
    by (simp add: xy PerceptronModel_train_body_correct and_then_simps)
qed

lemma for_each_flag:
  "for_each PerceptronModel_train_body bs (m, outcome) = Inr (m', True) \<Longrightarrow>
   m' = m \<and> outcome \<and> list_all (PerceptronModel_correct m) bs"
proof (induction bs arbitrary: m outcome)
  case Nil
  then show ?case by simp
next
  case (Cons xy bs)
  obtain x y where xy: "xy = (x, y)" by (cases xy)
  from Cons.prems obtain m1 o1 where
    s: "PerceptronModel_train_body (m, outcome) (x, y) = Inr (m1, o1)"
    and r: "for_each PerceptronModel_train_body bs (m1, o1) = Inr (m', True)"
    by (auto simp: xy and_then_Inr_iff)
  from Cons.IH [OF r] have i: "m' = m1" "o1" "list_all (PerceptronModel_correct m1) bs"
    by simp_all
  from s i(2) have "PerceptronModel_train_body (m, outcome) (x, y) = Inr (m1, True)" by simp
  from PerceptronModel_train_body_flag [OF this] i xy show ?case by simp
qed

lemma PerceptronModel_pass_clean_iff:
  "PerceptronModel_pass ds m = Inr (m', True) \<longleftrightarrow>
     m' = m \<and> list_all (PerceptronModel_correct m) (iterate_once ds 1)"
  unfolding PerceptronModel_pass_def
  using for_each_flag [of "iterate_once ds 1" m True m']
    for_each_all_correct [of m "iterate_once ds 1" True]
  by auto

lemma PerceptronModel_after_pass_Inr:
  "PerceptronModel_after_pass ds m = Inr m' \<longleftrightarrow> (\<exists>outcome. PerceptronModel_pass ds m = Inr (m', outcome))"
  by (auto simp: PerceptronModel_after_pass_def and_then_Inr_iff)

lemma PerceptronModel_after_pass_Inl:
  "PerceptronModel_after_pass ds m = Inl e \<longleftrightarrow> PerceptronModel_pass ds m = Inl e"
  by (cases "PerceptronModel_pass ds m")
    (auto simp: PerceptronModel_after_pass_def and_then_simps)

lemma PerceptronModel_train_stops:
  assumes "repeated n (PerceptronModel_after_pass ds) m = Inr mn"
    and "\<forall>k<n. \<exists>mk. repeated k (PerceptronModel_after_pass ds) m = Inr mk \<and>
           \<not> list_all (PerceptronModel_correct mk) (iterate_once ds 1)"
    and "(r = Inr mn \<and> list_all (PerceptronModel_correct mn) (iterate_once ds 1)) \<or>
         (\<exists>e. r = Inl e \<and> PerceptronModel_pass ds mn = Inl e)"
  shows "PerceptronModel_train ds m = Some r"
  using assms
proof (induction n arbitrary: m)
  case 0
  then have mn: "mn = m" by simp
  from 0(3) show ?case
  proof
    assume "r = Inr mn \<and> list_all (PerceptronModel_correct mn) (iterate_once ds 1)"
    with mn have "PerceptronModel_pass ds m = Inr (m, True)" "r = Inr m"
      by (simp_all add: PerceptronModel_pass_clean_iff)
    then show ?thesis by (subst PerceptronModel_train.simps) simp
  next
    assume "\<exists>e. r = Inl e \<and> PerceptronModel_pass ds mn = Inl e"
    with mn show ?thesis by (subst PerceptronModel_train.simps) auto
  qed
next
  case (Suc n)
  let ?A = "PerceptronModel_after_pass ds"
  from Suc.prems(2) have wrong: "\<not> list_all (PerceptronModel_correct m) (iterate_once ds 1)"
    by fastforce
  from Suc.prems(1) obtain m1 where m1: "?A m = Inr m1" "repeated n ?A m1 = Inr mn"
    by (auto simp: and_then_Inr_iff)
  from m1(1) obtain outcome where p: "PerceptronModel_pass ds m = Inr (m1, outcome)"
    by (auto simp: PerceptronModel_after_pass_Inr)
  have "\<not> outcome"
  proof
    assume outcome
    with p have "PerceptronModel_pass ds m = Inr (m1, True)" by simp
    with wrong show False by (simp add: PerceptronModel_pass_clean_iff)
  qed
  have shift: "repeated (Suc k) ?A m = repeated k ?A m1" for k
    using m1(1) by (simp add: and_then_simps)
  have "PerceptronModel_train ds m1 = Some r"
  proof (rule Suc.IH [OF m1(2) _ Suc.prems(3)])
    show "\<forall>k<n. \<exists>mk. repeated k ?A m1 = Inr mk \<and>
           \<not> list_all (PerceptronModel_correct mk) (iterate_once ds 1)"
    proof (intro allI impI)
      fix k assume "k < n"
      then have "Suc k < Suc n" by simp
      with Suc.prems(2) have "\<exists>mk. repeated (Suc k) ?A m = Inr mk \<and>
           \<not> list_all (PerceptronModel_correct mk) (iterate_once ds 1)" by blast
      then show "\<exists>mk. repeated k ?A m1 = Inr mk \<and>
           \<not> list_all (PerceptronModel_correct mk) (iterate_once ds 1)"
        using shift by simp
    qed
  qed
  with p \<open>\<not> outcome\<close> show ?case by (subst PerceptronModel_train.simps) simp
qed

lemma PerceptronModel_train_Some:
  fixes ds :: "(node, 'm) dataset"
  assumes "PerceptronModel_train ds m = Some r"
  shows "\<exists>n mn. repeated n (PerceptronModel_after_pass ds) m = Inr mn \<and>
      (\<forall>k<n. \<exists>mk. repeated k (PerceptronModel_after_pass ds) m = Inr mk \<and>
           \<not> list_all (PerceptronModel_correct mk) (iterate_once ds 1)) \<and>
      ((r = Inr mn \<and> list_all (PerceptronModel_correct mn) (iterate_once ds 1)) \<or>
       (\<exists>e. r = Inl e \<and> PerceptronModel_pass ds mn = Inl e))"
proof (rule PerceptronModel_train.raw_induct
    [where P = "\<lambda>(ds :: (node, 'm) dataset) m r. \<exists>n mn. repeated n (PerceptronModel_after_pass ds) m = Inr mn \<and>
      (\<forall>k<n. \<exists>mk. repeated k (PerceptronModel_after_pass ds) m = Inr mk \<and>
           \<not> list_all (PerceptronModel_correct mk) (iterate_once ds 1)) \<and>
      ((r = Inr mn \<and> list_all (PerceptronModel_correct mn) (iterate_once ds 1)) \<or>
       (\<exists>e. r = Inl e \<and> PerceptronModel_pass ds mn = Inl e))", OF _ assms])
  fix train :: "(node, 'm) dataset \<Rightarrow> PerceptronModel \<Rightarrow> (error + PerceptronModel) option"
  fix ds :: "(node, 'm) dataset" and m r
  let ?A = "PerceptronModel_after_pass ds"
  let ?bs = "iterate_once ds 1"
  assume IH: "\<And>ds m r. train ds m = Some r \<Longrightarrow>
     \<exists>n mn. repeated n (PerceptronModel_after_pass ds) m = Inr mn \<and>
      (\<forall>k<n. \<exists>mk. repeated k (PerceptronModel_after_pass ds) m = Inr mk \<and>
           \<not> list_all (PerceptronModel_correct mk) (iterate_once ds 1)) \<and>
      ((r = Inr mn \<and> list_all (PerceptronModel_correct mn) (iterate_once ds 1)) \<or>
       (\<exists>e. r = Inl e \<and> PerceptronModel_pass ds mn = Inl e))"
  assume step: "(case PerceptronModel_pass ds m of
        Inl e \<Rightarrow> Some (Inl e)
      | Inr (m', outcome) \<Rightarrow> if outcome then Some (Inr m') else train ds m') = Some r"
  show "\<exists>n mn. repeated n ?A m = Inr mn \<and>
      (\<forall>k<n. \<exists>mk. repeated k ?A m = Inr mk \<and> \<not> list_all (PerceptronModel_correct mk) ?bs) \<and>
      ((r = Inr mn \<and> list_all (PerceptronModel_correct mn) ?bs) \<or>
       (\<exists>e. r = Inl e \<and> PerceptronModel_pass ds mn = Inl e))"
  proof (cases "PerceptronModel_pass ds m")
    case (Inl e)
    with step have "r = Inl e" by simp
    with Inl show ?thesis by (intro exI [of _ 0] exI [of _ m]) simp
  next
    case (Inr mo)
    obtain m1 outcome where mo: "mo = (m1, outcome)" by (cases mo)
    show ?thesis
    proof (cases outcome)
      case True
      with Inr mo step have "r = Inr m1" by simp
      moreover from Inr mo True have "m1 = m \<and> list_all (PerceptronModel_correct m) ?bs"
        by (simp add: PerceptronModel_pass_clean_iff)
      ultimately show ?thesis by (intro exI [of _ 0] exI [of _ m]) simp
    next
      case False
      with Inr mo step have "train ds m1 = Some r" by simp
      from IH [OF this] obtain n mn where n: "repeated n ?A m1 = Inr mn"
        "\<forall>k<n. \<exists>mk. repeated k ?A m1 = Inr mk \<and> \<not> list_all (PerceptronModel_correct mk) ?bs"
        "(r = Inr mn \<and> list_all (PerceptronModel_correct mn) ?bs) \<or>
         (\<exists>e. r = Inl e \<and> PerceptronModel_pass ds mn = Inl e)"
        by blast
      from Inr mo have a: "?A m = Inr m1"
        by (simp add: PerceptronModel_after_pass_def and_then_simps)
      have shift: "repeated (Suc k) ?A m = repeated k ?A m1" for k
        using a by (simp add: and_then_simps)
      from Inr mo False have wrong: "\<not> list_all (PerceptronModel_correct m) ?bs"
        using PerceptronModel_pass_clean_iff [of ds m m] by auto
      have "\<exists>mk. repeated k ?A m = Inr mk \<and> \<not> list_all (PerceptronModel_correct mk) ?bs"
        if "k < Suc n" for k
      proof (cases k)
        case 0
        with wrong show ?thesis by simp
      next
        case (Suc k')
        with that n(2) have "\<exists>mk. repeated k' ?A m1 = Inr mk \<and>
            \<not> list_all (PerceptronModel_correct mk) ?bs" by simp
        with Suc shift show ?thesis by simp
      qed
      moreover have "repeated (Suc n) ?A m = Inr mn"
        using n(1) shift [of n] by simp
      ultimately show ?thesis
        using n(3) by (intro exI [of _ "Suc n"] exI [of _ mn]) blast
    qed
  qed
qed

lemma PerceptronModel_train_None_iff:
  fixes ds :: "(node, 'm) dataset"
  shows "PerceptronModel_train ds m = None \<longleftrightarrow>
     (\<forall>n. \<exists>mn. repeated n (PerceptronModel_after_pass ds) m = Inr mn \<and>
        \<not> list_all (PerceptronModel_correct mn) (iterate_once ds 1))"
proof
  let ?A = "PerceptronModel_after_pass ds"
  let ?bs = "iterate_once ds 1"
  let ?going = "\<lambda>n. \<exists>mn. repeated n ?A m = Inr mn \<and> \<not> list_all (PerceptronModel_correct mn) ?bs"
  assume none: "PerceptronModel_train ds m = None"
  show "\<forall>n. ?going n"
  proof (rule ccontr)
    assume "\<not> (\<forall>n. ?going n)"
    then have "\<exists>n. \<not> ?going n" by blast
    then obtain n where n: "\<not> ?going n" "\<forall>k<n. ?going k"
      using exists_least_iff [of "\<lambda>n. \<not> ?going n"] by blast
    have "\<exists>r. PerceptronModel_train ds m = Some r"
    proof (cases n)
      case 0
      with n(1) have "list_all (PerceptronModel_correct m) ?bs" by simp
      then have "PerceptronModel_train ds m = Some (Inr m)"
        by (intro PerceptronModel_train_stops [where n = 0 and mn = m]) simp_all
      then show ?thesis by blast
    next
      case (Suc j)
      with n(2) obtain mj where mj: "repeated j ?A m = Inr mj"
        "\<not> list_all (PerceptronModel_correct mj) ?bs" by blast
      have s: "repeated (Suc j) ?A m = ?A mj"
        by (simp only: repeated_snoc mj(1) and_then_simps)
      show ?thesis
      proof (cases "?A mj")
        case (Inl e)
        then have "PerceptronModel_pass ds mj = Inl e"
          by (simp add: PerceptronModel_after_pass_Inl)
        then have "PerceptronModel_train ds m = Some (Inl e)"
          using mj(1) n(2) Suc
          by (intro PerceptronModel_train_stops [where n = j and mn = mj]) simp_all
        then show ?thesis by blast
      next
        case (Inr mn)
        with s n(1) Suc have c: "list_all (PerceptronModel_correct mn) ?bs" by simp
        from s Inr have "repeated (Suc j) ?A m = Inr mn" by simp
        then have "PerceptronModel_train ds m = Some (Inr mn)"
          using n(2) Suc c
          by (intro PerceptronModel_train_stops [where n = "Suc j" and mn = mn]) simp_all
        then show ?thesis by blast
      qed
    qed
    with none show False by simp
  qed
next
  let ?A = "PerceptronModel_after_pass ds"
  let ?bs = "iterate_once ds 1"
  assume going: "\<forall>n. \<exists>mn. repeated n ?A m = Inr mn \<and>
     \<not> list_all (PerceptronModel_correct mn) ?bs"
  show "PerceptronModel_train ds m = None"
  proof (cases "PerceptronModel_train ds m")
    case None
    then show ?thesis .
  next
    case (Some r)
    from PerceptronModel_train_Some [OF this] obtain n mn where
      n: "repeated n ?A m = Inr mn"
      "(r = Inr mn \<and> list_all (PerceptronModel_correct mn) ?bs) \<or>
       (\<exists>e. r = Inl e \<and> PerceptronModel_pass ds mn = Inl e)"
      by blast
    from n(2) show ?thesis
    proof
      assume "r = Inr mn \<and> list_all (PerceptronModel_correct mn) ?bs"
      with going n(1) show ?thesis by (metis sum.inject(2))
    next
      assume "\<exists>e. r = Inl e \<and> PerceptronModel_pass ds mn = Inl e"
      then obtain e where "?A mn = Inl e" by (auto simp: PerceptronModel_after_pass_Inl)
      with n(1) have "repeated (Suc n) ?A m = Inl e"
        by (simp only: repeated_snoc and_then_simps)
      moreover from going obtain mk where "repeated (Suc n) ?A m = Inr mk" by blast
      ultimately show ?thesis by simp
    qed
  qed
qed

lemma PerceptronModel_train_Inr_iff:
  fixes ds :: "(node, 'm) dataset"
  shows "PerceptronModel_train ds m = Some (Inr m') \<longleftrightarrow>
     (\<exists>n. repeated n (PerceptronModel_after_pass ds) m = Inr m' \<and>
        list_all (PerceptronModel_correct m') (iterate_once ds 1) \<and>
        (\<forall>k<n. \<exists>mk. repeated k (PerceptronModel_after_pass ds) m = Inr mk \<and>
           \<not> list_all (PerceptronModel_correct mk) (iterate_once ds 1)))"
proof
  assume "PerceptronModel_train ds m = Some (Inr m')"
  from PerceptronModel_train_Some [OF this]
  show "\<exists>n. repeated n (PerceptronModel_after_pass ds) m = Inr m' \<and>
        list_all (PerceptronModel_correct m') (iterate_once ds 1) \<and>
        (\<forall>k<n. \<exists>mk. repeated k (PerceptronModel_after_pass ds) m = Inr mk \<and>
           \<not> list_all (PerceptronModel_correct mk) (iterate_once ds 1))"
    by auto
next
  assume "\<exists>n. repeated n (PerceptronModel_after_pass ds) m = Inr m' \<and>
        list_all (PerceptronModel_correct m') (iterate_once ds 1) \<and>
        (\<forall>k<n. \<exists>mk. repeated k (PerceptronModel_after_pass ds) m = Inr mk \<and>
           \<not> list_all (PerceptronModel_correct mk) (iterate_once ds 1))"
  then obtain n where n: "repeated n (PerceptronModel_after_pass ds) m = Inr m'"
    "list_all (PerceptronModel_correct m') (iterate_once ds 1)"
    "\<forall>k<n. \<exists>mk. repeated k (PerceptronModel_after_pass ds) m = Inr mk \<and>
           \<not> list_all (PerceptronModel_correct mk) (iterate_once ds 1)"
    by blast
  show "PerceptronModel_train ds m = Some (Inr m')"
    by (rule PerceptronModel_train_stops [OF n(1) n(3)]) (use n(2) in simp)
qed

text \<open>
  C1. \<open>train\<close> makes full passes over the dataset, one sample at a time. A sample whose
  label equals the prediction leaves the weights and the flag as they are; a sample
  whose label \<open>y\<close> differs from the prediction turns the weights \<open>w\<close> into \<open>w + y * x\<close>
  and clears the flag. A pass ends with the flag still set exactly when no sample of it
  was misclassified, and then the weights are unchanged. \<open>train\<close> returns the model
  \<open>m'\<close> exactly when \<open>m'\<close> is the model after some number of passes that each had a
  misclassified sample, and \<open>m'\<close> classifies every sample correctly; it never returns
  exactly when every pass completes and has a misclassified sample.
\<close>

theorem PerceptronModel_train_until_no_mistake:
  fixes ds :: "(node, 'm) dataset"
  shows
  "(as_scalar y = Inr label \<and> PerceptronModel_get_prediction m x = Inr p \<longrightarrow>
      (PerceptronModel_correct m (x, y) \<longleftrightarrow> label = of_int p)) \<and>
   (PerceptronModel_correct m (x, y) \<longrightarrow>
      PerceptronModel_train_body (m, outcome) (x, y) = Inr (m, outcome)) \<and>
   (as_scalar y = Inr label \<and> PerceptronModel_get_prediction m x = Inr p \<and>
    label \<noteq> of_int p \<longrightarrow>
      (\<exists>xt. forward x = Inr xt \<and>
         PerceptronModel_train_body (m, outcome) (x, y) =
           Inr (m\<lparr>w := tensor_add (w m) (tensor_scale label xt)\<rparr>, False))) \<and>
   PerceptronModel_pass ds m =
     for_each PerceptronModel_train_body (iterate_once ds 1) (m, True) \<and>
   (PerceptronModel_pass ds m = Inr (m', True) \<longleftrightarrow>
      m' = m \<and> list_all (PerceptronModel_correct m) (iterate_once ds 1)) \<and>
   (PerceptronModel_train ds m = Some (Inr m') \<longleftrightarrow>
      (\<exists>n. repeated n (PerceptronModel_after_pass ds) m = Inr m' \<and>
         list_all (PerceptronModel_correct m') (iterate_once ds 1) \<and>
         (\<forall>k<n. \<exists>mk. repeated k (PerceptronModel_after_pass ds) m = Inr mk \<and>
            \<not> list_all (PerceptronModel_correct mk) (iterate_once ds 1)))) \<and>
   (PerceptronModel_train ds m = None \<longleftrightarrow>
      (\<forall>n. \<exists>mn. repeated n (PerceptronModel_after_pass ds) m = Inr mn \<and>
         \<not> list_all (PerceptronModel_correct mn) (iterate_once ds 1)))"
proof (intro conjI impI)
  show "PerceptronModel_correct m (x, y) \<longleftrightarrow> label = of_int p"
    if "as_scalar y = Inr label \<and> PerceptronModel_get_prediction m x = Inr p"
    using that by (simp add: PerceptronModel_correct_def)
  show "PerceptronModel_train_body (m, outcome) (x, y) = Inr (m, outcome)"
    if "PerceptronModel_correct m (x, y)"
    using that by (rule PerceptronModel_train_body_correct)
  show "\<exists>xt. forward x = Inr xt \<and>
         PerceptronModel_train_body (m, outcome) (x, y) =
           Inr (m\<lparr>w := tensor_add (w m) (tensor_scale label xt)\<rparr>, False)"
    if "as_scalar y = Inr label \<and> PerceptronModel_get_prediction m x = Inr p \<and>
      label \<noteq> of_int p"
    using that by (intro PerceptronModel_train_body_misclassified [where p = p]) simp_all
  show "PerceptronModel_pass ds m =
     for_each PerceptronModel_train_body (iterate_once ds 1) (m, True)"
    by (simp add: PerceptronModel_pass_def)
  show "PerceptronModel_pass ds m = Inr (m', True) \<longleftrightarrow>
      m' = m \<and> list_all (PerceptronModel_correct m) (iterate_once ds 1)"
    by (rule PerceptronModel_pass_clean_iff)
  show "PerceptronModel_train ds m = Some (Inr m') \<longleftrightarrow>
      (\<exists>n. repeated n (PerceptronModel_after_pass ds) m = Inr m' \<and>
         list_all (PerceptronModel_correct m') (iterate_once ds 1) \<and>
         (\<forall>k<n. \<exists>mk. repeated k (PerceptronModel_after_pass ds) m = Inr mk \<and>
            \<not> list_all (PerceptronModel_correct mk) (iterate_once ds 1)))"
    by (rule PerceptronModel_train_Inr_iff)
  show "PerceptronModel_train ds m = None \<longleftrightarrow>
      (\<forall>n. \<exists>mn. repeated n (PerceptronModel_after_pass ds) m = Inr mn \<and>
         \<not> list_all (PerceptronModel_correct mn) (iterate_once ds 1))"
    by (rule PerceptronModel_train_None_iff)
qed

lemmas PerceptronModel_eval =
  PerceptronModel_after_pass_def PerceptronModel_pass_def PerceptronModel_train_body_def
  PerceptronModel_get_prediction_def PerceptronModel_run_def PerceptronModel_correct_def

theorem PerceptronModel_train_until_no_mistake_witness:
  "PerceptronModel_train
     \<lparr>iterate_once = \<lambda>n. [(Constant [[1, 0]], Constant [[1]]),
                           (Constant [[0, 1]], Constant [[- 1]])],
      get_validation_accuracy = \<lambda>m::unit. 0\<rparr>
     \<lparr>w = [[0, 0]]\<rparr> = Some (Inr \<lparr>w = [[0, - 1]]\<rparr>) \<and>
   PerceptronModel_train
     \<lparr>iterate_once = \<lambda>n. [(Constant [[0]], Constant [[- 1]])],
      get_validation_accuracy = \<lambda>m::unit. 0\<rparr>
     \<lparr>w = [[1]]\<rparr> = None"
proof -
  let ?ds = "\<lparr>iterate_once = \<lambda>n::nat. [(Constant [[1, 0]], Constant [[1]]),
                           (Constant [[0, 1]], Constant [[- 1]])],
      get_validation_accuracy = \<lambda>m::unit. 0::real\<rparr>"
  let ?dn = "\<lparr>iterate_once = \<lambda>n::nat. [(Constant [[0]], Constant [[- 1]])],
      get_validation_accuracy = \<lambda>m::unit. 0::real\<rparr>"
  have p0: "PerceptronModel_after_pass ?ds \<lparr>w = [[0, 0]]\<rparr> = Inr \<lparr>w = [[0, - 1]]\<rparr>"
    by (simp add: PerceptronModel_eval nn_eval)
  have c0: "\<not> list_all (PerceptronModel_correct \<lparr>w = [[0, 0]]\<rparr>) (iterate_once ?ds 1)"
    by (simp add: PerceptronModel_eval nn_eval)
  have c1: "list_all (PerceptronModel_correct \<lparr>w = [[0, - 1]]\<rparr>) (iterate_once ?ds 1)"
    by (simp add: PerceptronModel_eval nn_eval)
  have "\<exists>n. repeated n (PerceptronModel_after_pass ?ds) \<lparr>w = [[0, 0]]\<rparr> =
        Inr \<lparr>w = [[0, - 1]]\<rparr> \<and>
      list_all (PerceptronModel_correct \<lparr>w = [[0, - 1]]\<rparr>) (iterate_once ?ds 1) \<and>
      (\<forall>k<n. \<exists>mk. repeated k (PerceptronModel_after_pass ?ds) \<lparr>w = [[0, 0]]\<rparr> = Inr mk \<and>
         \<not> list_all (PerceptronModel_correct mk) (iterate_once ?ds 1))"
    using p0 c0 c1 by (intro exI [of _ 1]) (simp add: and_then_simps)
  then have a: "PerceptronModel_train ?ds \<lparr>w = [[0, 0]]\<rparr> = Some (Inr \<lparr>w = [[0, - 1]]\<rparr>)"
    using PerceptronModel_train_until_no_mistake
      [where ds = ?ds and m = "\<lparr>w = [[0, 0]]\<rparr>" and m' = "\<lparr>w = [[0, - 1]]\<rparr>",
        THEN conjunct2, THEN conjunct2, THEN conjunct2, THEN conjunct2, THEN conjunct2,
        THEN conjunct1]
    by blast
  have "PerceptronModel_after_pass ?dn \<lparr>w = [[1]]\<rparr> = Inr \<lparr>w = [[1]]\<rparr>"
    by (simp add: PerceptronModel_eval nn_eval)
  then have "repeated n (PerceptronModel_after_pass ?dn) \<lparr>w = [[1]]\<rparr> = Inr \<lparr>w = [[1]]\<rparr>"
    for n by (rule repeated_fixed)
  moreover have "\<not> list_all (PerceptronModel_correct \<lparr>w = [[1]]\<rparr>) (iterate_once ?dn 1)"
    by (simp add: PerceptronModel_eval nn_eval)
  ultimately have "\<forall>n. \<exists>mn. repeated n (PerceptronModel_after_pass ?dn) \<lparr>w = [[1]]\<rparr> = Inr mn \<and>
      \<not> list_all (PerceptronModel_correct mn) (iterate_once ?dn 1)"
    by simp
  then have b: "PerceptronModel_train ?dn \<lparr>w = [[1]]\<rparr> = None"
    using PerceptronModel_train_until_no_mistake
      [where ds = ?dn and m = "\<lparr>w = [[1]]\<rparr>",
        THEN conjunct2, THEN conjunct2, THEN conjunct2, THEN conjunct2, THEN conjunct2,
        THEN conjunct2]
    by blast
  from a b show ?thesis by simp
qed

section \<open>LanguageIDModel: the recurrence and its shapes\<close>

lemma LanguageIDModel_run_Cons:
  "LanguageIDModel_run m (x # rest) =
     built (Linear (foldl (\<lambda>first node.
                     ReLU (Add (Linear node (Parameter (weight m)))
                               (Linear first (Parameter (weight_h m)))))
                   (Linear x (Parameter (weight m))) rest) (Parameter (weight_f m)))"
  by (simp add: LanguageIDModel_run_def index_def and_then_simps)

text \<open>
  C9. \<open>run\<close> needs a non-empty list: on the empty list it fails with the index error of
  \<^verbatim>\<open>xs[0]\<close>, whatever the model, and the empty list is the only input on which it fails
  so.
\<close>

theorem LanguageIDModel_run_empty:
  "LanguageIDModel_run m [] = Inl IndexError \<and>
   (LanguageIDModel_run m xs = Inl IndexError \<longleftrightarrow> xs = [])"
proof
  show e: "LanguageIDModel_run m [] = Inl IndexError"
    by (simp add: LanguageIDModel_run_def index_def and_then_simps)
  show "LanguageIDModel_run m xs = Inl IndexError \<longleftrightarrow> xs = []"
  proof (cases xs)
    case Nil
    with e show ?thesis by simp
  next
    case (Cons x rest)
    have "LanguageIDModel_run m (x # rest) \<noteq> Inl IndexError"
      unfolding LanguageIDModel_run_Cons using built_error by fastforce
    with Cons show ?thesis by simp
  qed
qed

lemma foldl_hidden_state:
  "k \<le> length rest \<Longrightarrow>
   foldl (\<lambda>first node.
            ReLU (Add (Linear node (Parameter (weight m)))
                      (Linear first (Parameter (weight_h m)))))
     (Linear x (Parameter (weight m))) (take k rest) = hidden_state m (x # rest) k"
proof (induction k)
  case 0
  then show ?case by simp
next
  case (Suc k)
  then have "take (Suc k) rest = take k rest @ [rest ! k]"
    by (simp add: take_Suc_conv_app_nth)
  with Suc show ?case by simp
qed

lemma LanguageIDModel_run_hidden_state:
  assumes "xs \<noteq> []"
  shows "LanguageIDModel_run m xs =
     built (Linear (hidden_state m xs (length xs - 1)) (Parameter (weight_f m)))"
proof -
  from assms obtain x rest where xs: "xs = x # rest" by (cases xs) auto
  show ?thesis
    unfolding xs LanguageIDModel_run_Cons
    using foldl_hidden_state [of "length rest" rest m x] by simp
qed

lemma LanguageIDModel_run_nonempty: "LanguageIDModel_run m xs = Inr n \<Longrightarrow> xs \<noteq> []"
  by (auto simp: LanguageIDModel_run_def index_def and_then_simps)

text \<open>
  C5. For a non-empty list \<open>xs\<close> of \<open>L\<close> character nodes, \<open>run\<close> computes the recurrence:
  the hidden state at step 0 is \<open>Linear (xs ! 0) weight\<close>, with no rectification; the
  hidden state at step \<open>t + 1\<close> is \<open>ReLU (Add (Linear (xs ! (t + 1)) weight) (Linear h weight_h))\<close>
  for the hidden state \<open>h\<close> at step \<open>t\<close>; and the node returned is
  \<open>Linear h weight_f\<close> for the hidden state \<open>h\<close> at step \<open>L - 1\<close>.
\<close>

theorem LanguageIDModel_run_recurrence:
  "hidden_state m xs 0 = Linear (xs ! 0) (Parameter (weight m)) \<and>
   hidden_state m xs (Suc t) =
     ReLU (Add (Linear (xs ! Suc t) (Parameter (weight m)))
               (Linear (hidden_state m xs t) (Parameter (weight_h m)))) \<and>
   (xs \<noteq> [] \<longrightarrow>
      LanguageIDModel_run m xs =
        built (Linear (hidden_state m xs (length xs - 1)) (Parameter (weight_f m)))) \<and>
   (LanguageIDModel_run m xs = Inr n \<longrightarrow>
      n = Linear (hidden_state m xs (length xs - 1)) (Parameter (weight_f m)))"
proof (intro conjI impI)
  show "LanguageIDModel_run m xs =
        built (Linear (hidden_state m xs (length xs - 1)) (Parameter (weight_f m)))"
    if "xs \<noteq> []"
    using that by (rule LanguageIDModel_run_hidden_state)
  show "n = Linear (hidden_state m xs (length xs - 1)) (Parameter (weight_f m))"
    if r: "LanguageIDModel_run m xs = Inr n"
  proof -
    from r have "xs \<noteq> []" by (rule LanguageIDModel_run_nonempty)
    with r have "built (Linear (hidden_state m xs (length xs - 1)) (Parameter (weight_f m)))
        = Inr n"
      by (simp add: LanguageIDModel_run_hidden_state)
    then show ?thesis by (auto dest: built_Inr)
  qed
qed simp_all

theorem LanguageIDModel_run_recurrence_witness:
  "[Constant [1 # replicate 46 0], Constant [0 # 1 # replicate 45 0]] \<noteq> [] \<and>
   LanguageIDModel_run (LanguageIDModel_init (\<lambda>i j. 0) (\<lambda>i j. 0) (\<lambda>i j. 0))
       [Constant [1 # replicate 46 0], Constant [0 # 1 # replicate 45 0]] =
     built (Linear
       (ReLU (Add
          (Linear (Constant [0 # 1 # replicate 45 0])
             (Parameter (weight (LanguageIDModel_init (\<lambda>i j. 0) (\<lambda>i j. 0) (\<lambda>i j. 0)))))
          (Linear
             (Linear (Constant [1 # replicate 46 0])
                (Parameter (weight (LanguageIDModel_init (\<lambda>i j. 0) (\<lambda>i j. 0) (\<lambda>i j. 0)))))
             (Parameter (weight_h (LanguageIDModel_init (\<lambda>i j. 0) (\<lambda>i j. 0) (\<lambda>i j. 0)))))))
       (Parameter (weight_f (LanguageIDModel_init (\<lambda>i j. 0) (\<lambda>i j. 0) (\<lambda>i j. 0)))))"
proof -
  have h: "[Constant [1 # replicate 46 0], Constant [0 # 1 # replicate 45 0]] \<noteq> []"
    by simp
  from h LanguageIDModel_run_recurrence
    [where m = "LanguageIDModel_init (\<lambda>i j. 0) (\<lambda>i j. 0) (\<lambda>i j. 0)"
       and xs = "[Constant [1 # replicate 46 0], Constant [0 # 1 # replicate 45 0]]"
       and t = 0]
  show ?thesis by simp
qed

lemma hidden_state_shape:
  assumes W: "rect nc nh (weight m)" and Wh: "rect nh nh (weight_h m)"
    and pos: "0 < b" "0 < nc" "0 < nh"
    and xs: "\<forall>x\<in>set xs. \<exists>t. forward x = Inr t \<and> rect b nc t"
  shows "k < length xs \<Longrightarrow> \<exists>h. forward (hidden_state m xs k) = Inr h \<and> rect b nh h"
proof (induction k)
  case 0
  then obtain t where t: "forward (xs ! 0) = Inr t" "rect b nc t"
    using xs by (metis nth_mem)
  from Linear_forward_rect [OF t(2) W pos(1) pos(2)] t(1) show ?case
    by (simp add: and_then_simps)
next
  case (Suc k)
  then obtain h where h: "forward (hidden_state m xs k) = Inr h" "rect b nh h" by auto
  from Suc.prems obtain t where t: "forward (xs ! Suc k) = Inr t" "rect b nc t"
    using xs by (metis nth_mem)
  note l1 = Linear_forward_rect [OF t(2) W pos(1) pos(2)]
  note l2 = Linear_forward_rect [OF h(2) Wh pos(1) pos(3)]
  note a = Add_forward_rect [OF conjunct2 [OF l1] conjunct2 [OF l2] pos(1)]
  note r = ReLU_forward_rect [OF conjunct2 [OF a]]
  from t(1) h(1) l1 l2 a r show ?case
    by (simp add: and_then_simps)
qed

lemma LanguageIDModel_run_shape:
  assumes W: "rect nc nh (weight m)" and Wh: "rect nh nh (weight_h m)"
    and Wf: "rect nh nd (weight_f m)"
    and pos: "0 < b" "0 < nc" "0 < nh"
    and ne: "xs \<noteq> []"
    and xs: "\<forall>x\<in>set xs. \<exists>t. forward x = Inr t \<and> rect b nc t"
  shows "\<exists>n t. LanguageIDModel_run m xs = Inr n \<and> forward n = Inr t \<and> rect b nd t"
proof -
  from ne have "length xs - 1 < length xs" by (cases xs) auto
  from hidden_state_shape [OF W Wh pos xs this]
  obtain h where h: "forward (hidden_state m xs (length xs - 1)) = Inr h" "rect b nh h"
    by auto
  note l = Linear_forward_rect [OF h(2) Wf pos(1) pos(3)]
  have f: "forward (Linear (hidden_state m xs (length xs - 1)) (Parameter (weight_f m))) =
      Inr (matmul h (weight_f m))"
    using h(1) l by (simp add: and_then_simps)
  have "LanguageIDModel_run m xs =
      built (Linear (hidden_state m xs (length xs - 1)) (Parameter (weight_f m)))"
    using ne by (rule LanguageIDModel_run_hidden_state)
  with f l show ?thesis
    by (simp add: built_def and_then_simps)
qed

lemma LanguageIDModel_init_shape:
  "rect 47 300 (weight (LanguageIDModel_init init1 init2 init3)) \<and>
   rect 300 300 (weight_h (LanguageIDModel_init init1 init2 init3)) \<and>
   rect 300 5 (weight_f (LanguageIDModel_init init1 init2 init3))"
  by (simp add: LanguageIDModel_init_def rect_nn_Parameter)

text \<open>
  C7. The parameters of a new model have the shapes 47 x 300, 300 x 300 and 300 x 5. For
  a model with parameters of these shapes, a batch size \<open>b\<close> of at least 1 and a
  non-empty list \<open>xs\<close> of nodes of shape \<open>b\<close> x 47, of any length, \<open>run\<close> returns a node,
  and its data has the shape \<open>b\<close> x 5.
\<close>

theorem LanguageIDModel_run_batch_by_5:
  "(rect 47 300 (weight (LanguageIDModel_init ia ib ic)) \<and>
    rect 300 300 (weight_h (LanguageIDModel_init ia ib ic)) \<and>
    rect 300 5 (weight_f (LanguageIDModel_init ia ib ic))) \<and>
   (rect 47 300 (weight m) \<and> rect 300 300 (weight_h m) \<and> rect 300 5 (weight_f m) \<and>
    0 < b \<and> xs \<noteq> [] \<and> (\<forall>x\<in>set xs. \<exists>t. forward x = Inr t \<and> rect b 47 t) \<longrightarrow>
    (\<exists>n t. LanguageIDModel_run m xs = Inr n \<and> forward n = Inr t \<and> rect b 5 t))"
proof (intro conjI impI)
  assume a: "rect 47 300 (weight m) \<and> rect 300 300 (weight_h m) \<and> rect 300 5 (weight_f m) \<and>
    0 < b \<and> xs \<noteq> [] \<and> (\<forall>x\<in>set xs. \<exists>t. forward x = Inr t \<and> rect b 47 t)"
  show "\<exists>n t. LanguageIDModel_run m xs = Inr n \<and> forward n = Inr t \<and> rect b 5 t"
    by (rule LanguageIDModel_run_shape [where nc = 47 and nh = 300]) (use a in simp_all)
qed (simp_all add: LanguageIDModel_init_shape)

theorem LanguageIDModel_run_batch_by_5_witness:
  "(0::nat) < 2 \<and>
   [Constant [1 # replicate 46 0, 0 # 1 # replicate 45 0],
    Constant [0 # 1 # replicate 45 0, 1 # replicate 46 0]] \<noteq> [] \<and>
   (\<exists>n t. LanguageIDModel_run (LanguageIDModel_init (\<lambda>i j. 0) (\<lambda>i j. 0) (\<lambda>i j. 0))
       [Constant [1 # replicate 46 0, 0 # 1 # replicate 45 0],
        Constant [0 # 1 # replicate 45 0, 1 # replicate 46 0]] = Inr n \<and>
      forward n = Inr t \<and> rect 2 5 t)"
proof -
  have h: "\<forall>x\<in>set [Constant [1 # replicate 46 0, 0 # 1 # replicate 45 0],
      Constant [0 # 1 # replicate 45 0, 1 # replicate 46 0]].
      \<exists>t. forward x = Inr t \<and> rect 2 47 t"
    by (simp add: rect_def)
  from h LanguageIDModel_run_batch_by_5
    [where m = "LanguageIDModel_init (\<lambda>i j. 0) (\<lambda>i j. 0) (\<lambda>i j. 0)" and b = 2
       and ia = "\<lambda>i j. 0" and ib = "\<lambda>i j. 0" and ic = "\<lambda>i j. 0"
       and xs = "[Constant [1 # replicate 46 0, 0 # 1 # replicate 45 0],
                  Constant [0 # 1 # replicate 45 0, 1 # replicate 46 0]]"]
  show ?thesis by simp
qed

section \<open>RegressionModel: training\<close>

lemma RegressionModel_train_body_Inr:
  assumes "RegressionModel_train_body g m (x, y) = Inr m'"
  shows "\<exists>prediction gs.
      RegressionModel_run m x = Inr prediction \<and>
      gs = g (SquareLoss prediction y)
             [Parameter (RegressionModel.weight1 m), Parameter (RegressionModel.weight2 m),
              Parameter (RegressionModel.bias1 m), Parameter (RegressionModel.bias2 m)] \<and>
      4 \<le> length gs \<and>
      Parameter_update (RegressionModel.weight1 m) (gs ! 0) (RegressionModel.learning_rate m) =
        Inr (RegressionModel.weight1 m') \<and>
      Parameter_update (RegressionModel.weight2 m) (gs ! 1) (RegressionModel.learning_rate m) =
        Inr (RegressionModel.weight2 m') \<and>
      Parameter_update (RegressionModel.bias1 m) (gs ! 2) (RegressionModel.learning_rate m) =
        Inr (RegressionModel.bias1 m') \<and>
      Parameter_update (RegressionModel.bias2 m) (gs ! 3) (RegressionModel.learning_rate m) =
        Inr (RegressionModel.bias2 m') \<and>
      RegressionModel.learning_rate m' = RegressionModel.learning_rate m \<and>
      RegressionModel.batch_size m' = RegressionModel.batch_size m"
  using assms
  unfolding RegressionModel_train_body_def RegressionModel_get_loss_def Let_def prod.case
    and_then_Inr_iff index_Inr_iff
  by (auto dest!: built_Inr)

lemma RegressionModel_train_body_eq:
  assumes "RegressionModel_run m x = Inr prediction"
    and "built (SquareLoss prediction y) = Inr loss"
    and "g loss [Parameter (RegressionModel.weight1 m), Parameter (RegressionModel.weight2 m),
                 Parameter (RegressionModel.bias1 m), Parameter (RegressionModel.bias2 m)] =
           [g0, g1, g2, g3]"
    and "Parameter_update (RegressionModel.weight1 m) g0 (RegressionModel.learning_rate m) = Inr w1"
    and "Parameter_update (RegressionModel.weight2 m) g1 (RegressionModel.learning_rate m) = Inr w2"
    and "Parameter_update (RegressionModel.bias1 m) g2 (RegressionModel.learning_rate m) = Inr b1"
    and "Parameter_update (RegressionModel.bias2 m) g3 (RegressionModel.learning_rate m) = Inr b2"
  shows "RegressionModel_train_body g m (x, y) =
      Inr (m\<lparr>RegressionModel.weight1 := w1, RegressionModel.weight2 := w2,
              RegressionModel.bias1 := b1, RegressionModel.bias2 := b2\<rparr>)"
  using assms
  by (simp add: RegressionModel_train_body_def RegressionModel_get_loss_def and_then_simps
      index_def)

lemma RegressionModel_epoch_learning_rate:
  assumes "RegressionModel_epoch g ds m = Inr m'"
  shows "RegressionModel.learning_rate m' = RegressionModel.learning_rate m"
proof -
  have "RegressionModel.learning_rate m' = RegressionModel.learning_rate m"
    if "for_each (RegressionModel_train_body g) bs m = Inr m'" for bs
    using that
  proof (induction bs arbitrary: m)
    case Nil
    then show ?case by simp
  next
    case (Cons xy bs)
    obtain x y where xy: "xy = (x, y)" by (cases xy)
    from Cons.prems obtain u where u: "RegressionModel_train_body g m (x, y) = Inr u"
      "for_each (RegressionModel_train_body g) bs u = Inr m'"
      by (auto simp: and_then_Inr_iff xy)
    from RegressionModel_train_body_Inr [OF u(1)]
    have "RegressionModel.learning_rate u = RegressionModel.learning_rate m" by auto
    with Cons.IH [OF u(2)] show ?case by simp
  qed
  with assms show ?thesis by (simp add: RegressionModel_epoch_def)
qed

lemma RegressionModel_epochs_learning_rate:
  "repeated n (RegressionModel_epoch g ds) m = Inr m' \<Longrightarrow>
   RegressionModel.learning_rate m' = RegressionModel.learning_rate m"
proof (induction n arbitrary: m)
  case 0
  then show ?case by simp
next
  case (Suc n)
  then obtain u where u: "RegressionModel_epoch g ds m = Inr u"
    "repeated n (RegressionModel_epoch g ds) u = Inr m'"
    by (auto simp: and_then_Inr_iff)
  from Suc.IH [OF u(2)] RegressionModel_epoch_learning_rate [OF u(1)] show ?case by simp
qed

text \<open>
  C3. \<open>train\<close> is 1000 epochs in sequence, each the batches of size 10 of the dataset in
  order, whatever the validation accuracy of the dataset is; it ends earlier only when
  the library raises. The learning rate of a new model is -0.02 and no epoch changes it.
  A batch that is processed computes the prediction, the gradients of its square loss
  with respect to \<open>weight1\<close>, \<open>weight2\<close>, \<open>bias1\<close> and \<open>bias2\<close>, in this order, and updates
  each parameter with the gradient at its own position and the step size -0.02; and a
  batch is processed whenever the loss can be built, four gradients come back and the
  four updates succeed.
\<close>

theorem RegressionModel_train_fixed_epochs:
  "RegressionModel_train g ds m = repeated 1000 (RegressionModel_epoch g ds) m \<and>
   RegressionModel_epoch g ds m =
     for_each (RegressionModel_train_body g) (iterate_once ds 10) m \<and>
   RegressionModel_train g (ds\<lparr>get_validation_accuracy := a\<rparr>) m =
     RegressionModel_train g ds m \<and>
   RegressionModel.learning_rate (RegressionModel_init ia ib ic ie) = - 0.02 \<and>
   (repeated n (RegressionModel_epoch g ds) m = Inr mn \<longrightarrow>
      RegressionModel.learning_rate mn = RegressionModel.learning_rate m) \<and>
   (RegressionModel.learning_rate m = - 0.02 \<and>
    RegressionModel_train_body g m (x, y) = Inr m' \<longrightarrow>
      (\<exists>prediction gs.
         RegressionModel_run m x = Inr prediction \<and>
         gs = g (SquareLoss prediction y)
                [Parameter (RegressionModel.weight1 m), Parameter (RegressionModel.weight2 m),
                 Parameter (RegressionModel.bias1 m), Parameter (RegressionModel.bias2 m)] \<and>
         Parameter_update (RegressionModel.weight1 m) (gs ! 0) (- 0.02) =
           Inr (RegressionModel.weight1 m') \<and>
         Parameter_update (RegressionModel.weight2 m) (gs ! 1) (- 0.02) =
           Inr (RegressionModel.weight2 m') \<and>
         Parameter_update (RegressionModel.bias1 m) (gs ! 2) (- 0.02) =
           Inr (RegressionModel.bias1 m') \<and>
         Parameter_update (RegressionModel.bias2 m) (gs ! 3) (- 0.02) =
           Inr (RegressionModel.bias2 m') \<and>
         RegressionModel.learning_rate m' = - 0.02)) \<and>
   (RegressionModel.learning_rate m = - 0.02 \<and>
    RegressionModel_run m x = Inr prediction \<and>
    built (SquareLoss prediction y) = Inr loss \<and>
    g loss [Parameter (RegressionModel.weight1 m), Parameter (RegressionModel.weight2 m),
            Parameter (RegressionModel.bias1 m), Parameter (RegressionModel.bias2 m)] =
      [g0, g1, g2, g3] \<and>
    Parameter_update (RegressionModel.weight1 m) g0 (- 0.02) = Inr w1 \<and>
    Parameter_update (RegressionModel.weight2 m) g1 (- 0.02) = Inr w2 \<and>
    Parameter_update (RegressionModel.bias1 m) g2 (- 0.02) = Inr b1 \<and>
    Parameter_update (RegressionModel.bias2 m) g3 (- 0.02) = Inr b2 \<longrightarrow>
      RegressionModel_train_body g m (x, y) =
        Inr (m\<lparr>RegressionModel.weight1 := w1, RegressionModel.weight2 := w2,
                RegressionModel.bias1 := b1, RegressionModel.bias2 := b2\<rparr>))"
proof (intro conjI impI)
  show "RegressionModel_train g ds m = repeated 1000 (RegressionModel_epoch g ds) m"
    by (simp add: RegressionModel_train_def for_each_const_body)
  show "RegressionModel_epoch g ds m =
      for_each (RegressionModel_train_body g) (iterate_once ds 10) m"
    by (simp add: RegressionModel_epoch_def)
  show "RegressionModel_train g (ds\<lparr>get_validation_accuracy := a\<rparr>) m =
      RegressionModel_train g ds m"
    by (simp add: RegressionModel_train_def RegressionModel_epoch_def)
  show "RegressionModel.learning_rate (RegressionModel_init ia ib ic ie) = - 0.02"
    by (simp add: RegressionModel_init_def)
  show "RegressionModel.learning_rate mn = RegressionModel.learning_rate m"
    if "repeated n (RegressionModel_epoch g ds) m = Inr mn"
    using that by (rule RegressionModel_epochs_learning_rate)
next
  assume a: "RegressionModel.learning_rate m = - 0.02 \<and>
    RegressionModel_train_body g m (x, y) = Inr m'"
  then have b: "RegressionModel_train_body g m (x, y) = Inr m'" by simp
  from RegressionModel_train_body_Inr [OF b] a
  show "\<exists>prediction gs.
         RegressionModel_run m x = Inr prediction \<and>
         gs = g (SquareLoss prediction y)
                [Parameter (RegressionModel.weight1 m), Parameter (RegressionModel.weight2 m),
                 Parameter (RegressionModel.bias1 m), Parameter (RegressionModel.bias2 m)] \<and>
         Parameter_update (RegressionModel.weight1 m) (gs ! 0) (- 0.02) =
           Inr (RegressionModel.weight1 m') \<and>
         Parameter_update (RegressionModel.weight2 m) (gs ! 1) (- 0.02) =
           Inr (RegressionModel.weight2 m') \<and>
         Parameter_update (RegressionModel.bias1 m) (gs ! 2) (- 0.02) =
           Inr (RegressionModel.bias1 m') \<and>
         Parameter_update (RegressionModel.bias2 m) (gs ! 3) (- 0.02) =
           Inr (RegressionModel.bias2 m') \<and>
         RegressionModel.learning_rate m' = - 0.02"
    by auto
next
  assume a: "RegressionModel.learning_rate m = - 0.02 \<and>
    RegressionModel_run m x = Inr prediction \<and>
    built (SquareLoss prediction y) = Inr loss \<and>
    g loss [Parameter (RegressionModel.weight1 m), Parameter (RegressionModel.weight2 m),
            Parameter (RegressionModel.bias1 m), Parameter (RegressionModel.bias2 m)] =
      [g0, g1, g2, g3] \<and>
    Parameter_update (RegressionModel.weight1 m) g0 (- 0.02) = Inr w1 \<and>
    Parameter_update (RegressionModel.weight2 m) g1 (- 0.02) = Inr w2 \<and>
    Parameter_update (RegressionModel.bias1 m) g2 (- 0.02) = Inr b1 \<and>
    Parameter_update (RegressionModel.bias2 m) g3 (- 0.02) = Inr b2"
  show "RegressionModel_train_body g m (x, y) =
        Inr (m\<lparr>RegressionModel.weight1 := w1, RegressionModel.weight2 := w2,
                RegressionModel.bias1 := b1, RegressionModel.bias2 := b2\<rparr>)"
    by (rule RegressionModel_train_body_eq [where prediction = prediction and loss = loss
          and ?g0.0 = g0 and ?g1.0 = g1 and ?g2.0 = g2 and ?g3.0 = g3])
      (use a in simp_all)
qed

theorem RegressionModel_train_fixed_epochs_witness:
  "RegressionModel.learning_rate
     \<lparr>RegressionModel.batch_size = 10, weight1 = [[1]], bias1 = [[0]], weight2 = [[1]],
      bias2 = [[0]], learning_rate = - 0.02\<rparr> = - 0.02 \<and>
   RegressionModel_train_body (\<lambda>loss ps. [Constant [[1]], Constant [[2]], Constant [[3]], Constant [[4]]])
     \<lparr>RegressionModel.batch_size = 10, weight1 = [[1]], bias1 = [[0]], weight2 = [[1]],
      bias2 = [[0]], learning_rate = - 0.02\<rparr>
     (Constant [[1]], Constant [[2]]) =
   Inr \<lparr>RegressionModel.batch_size = 10, weight1 = [[0.98]], bias1 = [[- 0.06]],
        weight2 = [[0.96]], bias2 = [[- 0.08]], learning_rate = - 0.02\<rparr> \<and>
   repeated 1 (RegressionModel_epoch
       (\<lambda>loss ps. [Constant [[1]], Constant [[2]], Constant [[3]], Constant [[4]]])
       \<lparr>iterate_once = \<lambda>n. [(Constant [[1]], Constant [[2]])],
        get_validation_accuracy = \<lambda>m::unit. 0\<rparr>)
     \<lparr>RegressionModel.batch_size = 10, weight1 = [[1]], bias1 = [[0]], weight2 = [[1]],
      bias2 = [[0]], learning_rate = - 0.02\<rparr> =
   Inr \<lparr>RegressionModel.batch_size = 10, weight1 = [[0.98]], bias1 = [[- 0.06]],
        weight2 = [[0.96]], bias2 = [[- 0.08]], learning_rate = - 0.02\<rparr>"
proof -
  let ?g = "\<lambda>(loss::node) (ps::node list). [Constant [[1]], Constant [[2]], Constant [[3]], Constant [[4]]]"
  let ?m = "\<lparr>RegressionModel.batch_size = 10, weight1 = [[1]], bias1 = [[0]], weight2 = [[1]],
      bias2 = [[0]], learning_rate = - 0.02\<rparr>"
  let ?m' = "\<lparr>RegressionModel.batch_size = 10, weight1 = [[0.98]], bias1 = [[- 0.06]],
        weight2 = [[0.96]], bias2 = [[- 0.08]], learning_rate = - 0.02\<rparr>"
  let ?ds = "\<lparr>iterate_once = \<lambda>n::nat. [(Constant [[1]], Constant [[2]])],
        get_validation_accuracy = \<lambda>m::unit. 0::real\<rparr>"
  let ?p = "AddBias (Linear (ReLU (AddBias (Linear (Constant [[1]]) (Parameter [[1]]))
      (Parameter [[0]]))) (Parameter [[1]])) (Parameter [[0]])"
  have lr: "RegressionModel.learning_rate ?m = - 0.02" by simp
  have run: "RegressionModel_run ?m (Constant [[1]]) = Inr ?p"
    by (simp add: RegressionModel_run_def nn_eval)
  have loss: "built (SquareLoss ?p (Constant [[2]])) = Inr (SquareLoss ?p (Constant [[2]]))"
    by (simp add: nn_eval)
  have u: "Parameter_update [[1]] (Constant [[1]]) (- 0.02) = Inr [[0.98]]"
    "Parameter_update [[1]] (Constant [[2]]) (- 0.02) = Inr [[0.96]]"
    "Parameter_update [[0]] (Constant [[3]]) (- 0.02) = Inr [[- 0.06]]"
    "Parameter_update [[0]] (Constant [[4]]) (- 0.02) = Inr [[- 0.08]]"
    by (simp_all add: nn_eval)
  have body: "RegressionModel_train_body ?g ?m (Constant [[1]], Constant [[2]]) = Inr ?m'"
    using lr run loss u
      RegressionModel_train_fixed_epochs
        [where g = ?g and m = ?m and x = "Constant [[1]]" and y = "Constant [[2]]"
           and prediction = ?p and loss = "SquareLoss ?p (Constant [[2]])"
           and ?g0.0 = "Constant [[1]]" and ?g1.0 = "Constant [[2]]"
           and ?g2.0 = "Constant [[3]]" and ?g3.0 = "Constant [[4]]"
           and ?w1.0 = "[[0.98]]" and ?w2.0 = "[[0.96]]"
           and ?b1.0 = "[[- 0.06]]" and ?b2.0 = "[[- 0.08]]"
           and ds = ?ds and n = 1 and m' = ?m' and mn = ?m', THEN conjunct2, THEN conjunct2,
           THEN conjunct2, THEN conjunct2, THEN conjunct2, THEN conjunct2]
    by simp
  have "repeated 1 (RegressionModel_epoch ?g ?ds) ?m = Inr ?m'"
    using body by (simp add: RegressionModel_epoch_def and_then_simps)
  with lr body show ?thesis by simp
qed

section \<open>DigitClassificationModel: training\<close>

lemma DigitClassificationModel_train_body_Inr:
  assumes "DigitClassificationModel_train_body g m (x, y) = Inr m'"
  shows "\<exists>logits gs.
      DigitClassificationModel_run m x = Inr logits \<and>
      gs = g (SoftmaxLoss logits y)
             [Parameter (DigitClassificationModel.weight1 m),
              Parameter (DigitClassificationModel.weight2 m),
              Parameter (DigitClassificationModel.bias1 m),
              Parameter (DigitClassificationModel.bias2 m)] \<and>
      4 \<le> length gs \<and>
      Parameter_update (DigitClassificationModel.weight1 m) (gs ! 0)
        (DigitClassificationModel.learning_rate m) = Inr (DigitClassificationModel.weight1 m') \<and>
      Parameter_update (DigitClassificationModel.weight2 m) (gs ! 1)
        (DigitClassificationModel.learning_rate m) = Inr (DigitClassificationModel.weight2 m') \<and>
      Parameter_update (DigitClassificationModel.bias1 m) (gs ! 2)
        (DigitClassificationModel.learning_rate m) = Inr (DigitClassificationModel.bias1 m') \<and>
      Parameter_update (DigitClassificationModel.bias2 m) (gs ! 3)
        (DigitClassificationModel.learning_rate m) = Inr (DigitClassificationModel.bias2 m') \<and>
      DigitClassificationModel.learning_rate m' = DigitClassificationModel.learning_rate m \<and>
      DigitClassificationModel.batch_size m' = DigitClassificationModel.batch_size m"
  using assms
  unfolding DigitClassificationModel_train_body_def DigitClassificationModel_get_loss_def
    Let_def prod.case and_then_Inr_iff index_Inr_iff
  by (auto dest!: built_Inr)

lemma DigitClassificationModel_get_loss_Inr:
  "DigitClassificationModel_run m x = Inr logits \<Longrightarrow>
   DigitClassificationModel_get_loss m x y = Inr loss \<Longrightarrow> loss = SoftmaxLoss logits y"
  by (auto simp: DigitClassificationModel_get_loss_def and_then_simps dest: built_Inr)

lemma DigitClassificationModel_train_body_loss:
  "DigitClassificationModel_train_body g m (x, y) = Inr m' \<Longrightarrow>
   \<exists>loss. DigitClassificationModel_get_loss m x y = Inr loss"
  unfolding DigitClassificationModel_train_body_def prod.case and_then_Inr_iff by blast

lemma DigitClassificationModel_train_loop_stops:
  "\<exists>n. n \<le> length js \<and> (js \<noteq> [] \<longrightarrow> 1 \<le> n) \<and>
     DigitClassificationModel_train_loop g ds js m =
       repeated n (DigitClassificationModel_epoch g ds) m \<and>
     (\<forall>k. 1 \<le> k \<and> k < n \<longrightarrow>
        (\<exists>mk. repeated k (DigitClassificationModel_epoch g ds) m = Inr mk \<and>
           get_validation_accuracy ds mk < 0.97)) \<and>
     (n < length js \<longrightarrow>
        (\<forall>mn. repeated n (DigitClassificationModel_epoch g ds) m = Inr mn \<longrightarrow>
           get_validation_accuracy ds mn \<ge> 0.97))"
proof (induction js arbitrary: m)
  case Nil
  show ?case by (rule exI [of _ 0]) simp
next
  case (Cons j js)
  let ?E = "DigitClassificationModel_epoch g ds"
  show ?case
  proof (cases "?E m")
    case (Inl e)
    then have "DigitClassificationModel_train_loop g ds (j # js) m = repeated 1 ?E m"
      by (simp add: and_then_simps)
    with Inl show ?thesis
      by (intro exI [of _ 1]) (simp add: and_then_simps)
  next
    case (Inr m1)
    show ?thesis
    proof (cases "get_validation_accuracy ds m1 \<ge> 0.97")
      case True
      with Inr show ?thesis
        by (intro exI [of _ 1]) (simp add: and_then_simps)
    next
      case False
      from Cons.IH [of m1] obtain n where n: "n \<le> length js" "js \<noteq> [] \<longrightarrow> 1 \<le> n"
        "DigitClassificationModel_train_loop g ds js m1 = repeated n ?E m1"
        "\<forall>k. 1 \<le> k \<and> k < n \<longrightarrow>
           (\<exists>mk. repeated k ?E m1 = Inr mk \<and> get_validation_accuracy ds mk < 0.97)"
        "n < length js \<longrightarrow>
           (\<forall>mn. repeated n ?E m1 = Inr mn \<longrightarrow> get_validation_accuracy ds mn \<ge> 0.97)"
        by blast
      have shift: "repeated (Suc k) ?E m = repeated k ?E m1" for k
        using Inr by (simp add: and_then_simps)
      have "DigitClassificationModel_train_loop g ds (j # js) m = repeated (Suc n) ?E m"
        using Inr False n(3) by (simp add: and_then_simps)
      moreover have "\<exists>mk. repeated k ?E m = Inr mk \<and> get_validation_accuracy ds mk < 0.97"
        if k: "1 \<le> k \<and> k < Suc n" for k
      proof (cases k)
        case 0
        with k show ?thesis by simp
      next
        case (Suc k')
        show ?thesis
        proof (cases k')
          case 0
          with Suc Inr False show ?thesis by (simp add: and_then_simps)
        next
          case (Suc k'')
          with \<open>k = Suc k'\<close> k n(4) have "\<exists>mk. repeated k' ?E m1 = Inr mk \<and>
              get_validation_accuracy ds mk < 0.97"
            by auto
          with \<open>k = Suc k'\<close> shift show ?thesis by simp
        qed
      qed
      moreover have "Suc n < length (j # js) \<longrightarrow>
          (\<forall>mn. repeated (Suc n) ?E m = Inr mn \<longrightarrow> get_validation_accuracy ds mn \<ge> 0.97)"
        using n(5) shift by simp
      ultimately show ?thesis
        using n(1) by (intro exI [of _ "Suc n"]) simp
    qed
  qed
qed

lemma DigitClassificationModel_train_first_epoch:
  "DigitClassificationModel_train g ds m =
     and_then (DigitClassificationModel_epoch g ds m) (\<lambda>m'.
       if get_validation_accuracy ds m' \<ge> 0.97 then Inr m'
       else DigitClassificationModel_train_loop g ds [1..<2000] m')"
proof -
  have "[0..<2000] = 0 # [Suc 0..<2000]" by (rule upt_conv_Cons) simp
  then have "[0..<2000] = 0 # [1..<2000]" by (simp only: One_nat_def)
  then show ?thesis
    by (simp only: DigitClassificationModel_train_def DigitClassificationModel_train_loop.simps)
qed

text \<open>
  C4. \<open>train\<close> runs between 1 and 2000 epochs: it is \<open>n\<close> epochs in sequence for some
  \<open>n\<close> from 1 to 2000 such that every earlier epoch ended without an error and with a
  validation accuracy below 0.97, and such that, when \<open>n\<close> is less than 2000, the
  \<open>n\<close>-th epoch raised or ended with an accuracy of at least 0.97. So it returns the
  model of the first epoch after which the accuracy is at least 0.97, and when no epoch
  up to the 2000th reaches the threshold it returns after the 2000th.
\<close>

theorem DigitClassificationModel_train_epochs:
  "(\<exists>n. 1 \<le> n \<and> n \<le> 2000 \<and>
      DigitClassificationModel_train g ds m =
        repeated n (DigitClassificationModel_epoch g ds) m \<and>
      (\<forall>k. 1 \<le> k \<and> k < n \<longrightarrow>
         (\<exists>mk. repeated k (DigitClassificationModel_epoch g ds) m = Inr mk \<and>
            get_validation_accuracy ds mk < 0.97)) \<and>
      (n < 2000 \<longrightarrow>
         (\<forall>mn. repeated n (DigitClassificationModel_epoch g ds) m = Inr mn \<longrightarrow>
            get_validation_accuracy ds mn \<ge> 0.97))) \<and>
   (1 \<le> j \<and> j \<le> 2000 \<and>
    repeated j (DigitClassificationModel_epoch g ds) m = Inr mj \<and>
    get_validation_accuracy ds mj \<ge> 0.97 \<and>
    (\<forall>k. 1 \<le> k \<and> k < j \<longrightarrow>
       (\<exists>mk. repeated k (DigitClassificationModel_epoch g ds) m = Inr mk \<and>
          get_validation_accuracy ds mk < 0.97)) \<longrightarrow>
      DigitClassificationModel_train g ds m = Inr mj) \<and>
   ((\<forall>k. 1 \<le> k \<and> k \<le> 2000 \<longrightarrow>
       (\<exists>mk. repeated k (DigitClassificationModel_epoch g ds) m = Inr mk \<and>
          get_validation_accuracy ds mk < 0.97)) \<longrightarrow>
      DigitClassificationModel_train g ds m =
        repeated 2000 (DigitClassificationModel_epoch g ds) m)"
proof -
  let ?E = "DigitClassificationModel_epoch g ds"
  from DigitClassificationModel_train_loop_stops [of "[0..<2000]" g ds m]
  obtain n where n: "n \<le> 2000" "1 \<le> n"
    "DigitClassificationModel_train g ds m = repeated n ?E m"
    "\<forall>k. 1 \<le> k \<and> k < n \<longrightarrow>
       (\<exists>mk. repeated k ?E m = Inr mk \<and> get_validation_accuracy ds mk < 0.97)"
    "n < 2000 \<longrightarrow>
       (\<forall>mn. repeated n ?E m = Inr mn \<longrightarrow> get_validation_accuracy ds mn \<ge> 0.97)"
    unfolding DigitClassificationModel_train_def by auto
  have first: "\<exists>n. 1 \<le> n \<and> n \<le> 2000 \<and>
      DigitClassificationModel_train g ds m = repeated n ?E m \<and>
      (\<forall>k. 1 \<le> k \<and> k < n \<longrightarrow>
         (\<exists>mk. repeated k ?E m = Inr mk \<and> get_validation_accuracy ds mk < 0.97)) \<and>
      (n < 2000 \<longrightarrow>
         (\<forall>mn. repeated n ?E m = Inr mn \<longrightarrow> get_validation_accuracy ds mn \<ge> 0.97))"
    using n by blast
  have second: "DigitClassificationModel_train g ds m = Inr mj"
    if a: "1 \<le> j \<and> j \<le> 2000 \<and> repeated j ?E m = Inr mj \<and>
      get_validation_accuracy ds mj \<ge> 0.97 \<and>
      (\<forall>k. 1 \<le> k \<and> k < j \<longrightarrow>
         (\<exists>mk. repeated k ?E m = Inr mk \<and> get_validation_accuracy ds mk < 0.97))"
  proof -
    have "\<not> n < j"
    proof
      assume "n < j"
      with a n(2) obtain mk where "repeated n ?E m = Inr mk"
        "get_validation_accuracy ds mk < 0.97" by blast
      moreover from \<open>n < j\<close> a have "n < 2000" by simp
      ultimately show False using n(5) by fastforce
    qed
    moreover have "\<not> j < n"
    proof
      assume "j < n"
      with a n(4) obtain mk where "repeated j ?E m = Inr mk"
        "get_validation_accuracy ds mk < 0.97" by blast
      with a show False by simp
    qed
    ultimately have "n = j" by simp
    with n(3) a show ?thesis by simp
  qed
  have third: "DigitClassificationModel_train g ds m = repeated 2000 ?E m"
    if a: "\<forall>k. 1 \<le> k \<and> k \<le> 2000 \<longrightarrow>
       (\<exists>mk. repeated k ?E m = Inr mk \<and> get_validation_accuracy ds mk < 0.97)"
  proof -
    have "\<not> n < 2000"
    proof
      assume l: "n < 2000"
      with a n(2) obtain mk where "repeated n ?E m = Inr mk"
        "get_validation_accuracy ds mk < 0.97" by force
      with l n(5) show False by fastforce
    qed
    with n(1) have "n = 2000" by simp
    with n(3) show ?thesis by simp
  qed
  from first second third show ?thesis by blast
qed

lemma DigitClassificationModel_epoch_example:
  "DigitClassificationModel_epoch
     (\<lambda>loss ps. [Constant [[g0]], Constant [[g1]], Constant [[g2]], Constant [[g3]]])
     \<lparr>iterate_once = \<lambda>n. [(Constant [[1]], Constant [[1]])],
      get_validation_accuracy = accuracy\<rparr>
     \<lparr>DigitClassificationModel.batch_size = 10, weight1 = [[1]], bias1 = [[0]],
      weight2 = [[1]], bias2 = [[0]], learning_rate = - 0.02\<rparr> =
   Inr \<lparr>DigitClassificationModel.batch_size = 10, weight1 = [[1 - 0.02 * g0]],
        bias1 = [[- 0.02 * g2]], weight2 = [[1 - 0.02 * g1]], bias2 = [[- 0.02 * g3]],
        learning_rate = - 0.02\<rparr>"
proof -
  let ?m = "\<lparr>DigitClassificationModel.batch_size = 10, weight1 = [[1]], bias1 = [[0]],
      weight2 = [[1]], bias2 = [[0]], learning_rate = - 0.02\<rparr>"
  let ?p = "AddBias (Linear (ReLU (AddBias (Linear (Constant [[1]]) (Parameter [[1]]))
      (Parameter [[0]]))) (Parameter [[1]])) (Parameter [[0]])"
  have run: "DigitClassificationModel_run ?m (Constant [[1]]) = Inr ?p"
    by (simp add: DigitClassificationModel_run_def nn_eval)
  have loss: "built (SoftmaxLoss ?p (Constant [[1]])) = Inr (SoftmaxLoss ?p (Constant [[1]]))"
    by (simp add: nn_eval)
  have "DigitClassificationModel_train_body
      (\<lambda>loss ps. [Constant [[g0]], Constant [[g1]], Constant [[g2]], Constant [[g3]]])
      ?m (Constant [[1]], Constant [[1]]) =
    Inr \<lparr>DigitClassificationModel.batch_size = 10, weight1 = [[1 - 0.02 * g0]],
        bias1 = [[- 0.02 * g2]], weight2 = [[1 - 0.02 * g1]], bias2 = [[- 0.02 * g3]],
        learning_rate = - 0.02\<rparr>"
    using run loss
    by (simp add: DigitClassificationModel_train_body_def DigitClassificationModel_get_loss_def
        and_then_simps index_def Parameter_update_def same_shape_def is_tensor_def rect_def
        ncols_def tensor_add_def tensor_scale_def)
  then show ?thesis
    by (simp add: DigitClassificationModel_epoch_def and_then_simps)
qed

theorem DigitClassificationModel_train_epochs_witness:
  "DigitClassificationModel_train
     (\<lambda>loss ps. [Constant [[1]], Constant [[2]], Constant [[3]], Constant [[4]]])
     \<lparr>iterate_once = \<lambda>n. [(Constant [[1]], Constant [[1]])],
      get_validation_accuracy = \<lambda>m. 1\<rparr>
     \<lparr>DigitClassificationModel.batch_size = 10, weight1 = [[1]], bias1 = [[0]],
      weight2 = [[1]], bias2 = [[0]], learning_rate = - 0.02\<rparr> =
   Inr \<lparr>DigitClassificationModel.batch_size = 10, weight1 = [[0.98]], bias1 = [[- 0.06]],
        weight2 = [[0.96]], bias2 = [[- 0.08]], learning_rate = - 0.02\<rparr> \<and>
   DigitClassificationModel_train
     (\<lambda>loss ps. [Constant [[0]], Constant [[0]], Constant [[0]], Constant [[0]]])
     \<lparr>iterate_once = \<lambda>n. [(Constant [[1]], Constant [[1]])],
      get_validation_accuracy = \<lambda>m. 0\<rparr>
     \<lparr>DigitClassificationModel.batch_size = 10, weight1 = [[1]], bias1 = [[0]],
      weight2 = [[1]], bias2 = [[0]], learning_rate = - 0.02\<rparr> =
   Inr \<lparr>DigitClassificationModel.batch_size = 10, weight1 = [[1]], bias1 = [[0]],
        weight2 = [[1]], bias2 = [[0]], learning_rate = - 0.02\<rparr>"
proof -
  let ?g = "\<lambda>(loss::node) (ps::node list).
    [Constant [[1]], Constant [[2]], Constant [[3]], Constant [[4]]]"
  let ?z = "\<lambda>(loss::node) (ps::node list).
    [Constant [[0]], Constant [[0]], Constant [[0]], Constant [[0]]]"
  let ?m = "\<lparr>DigitClassificationModel.batch_size = 10, weight1 = [[1]], bias1 = [[0]],
      weight2 = [[1]], bias2 = [[0]], learning_rate = - 0.02\<rparr>"
  let ?m' = "\<lparr>DigitClassificationModel.batch_size = 10, weight1 = [[0.98]],
      bias1 = [[- 0.06]], weight2 = [[0.96]], bias2 = [[- 0.08]], learning_rate = - 0.02\<rparr>"
  let ?hi = "\<lparr>iterate_once = \<lambda>n::nat. [(Constant [[1]], Constant [[1]])],
      get_validation_accuracy = \<lambda>m::DigitClassificationModel. 1::real\<rparr>"
  let ?lo = "\<lparr>iterate_once = \<lambda>n::nat. [(Constant [[1]], Constant [[1]])],
      get_validation_accuracy = \<lambda>m::DigitClassificationModel. 0::real\<rparr>"
  have e1: "repeated 1 (DigitClassificationModel_epoch ?g ?hi) ?m = Inr ?m'"
    using DigitClassificationModel_epoch_example
      [where ?g0.0 = 1 and ?g1.0 = 2 and ?g2.0 = 3 and ?g3.0 = 4
         and accuracy = "\<lambda>m. 1"]
    by (simp add: and_then_simps)
  have "DigitClassificationModel_epoch ?z ?lo ?m = Inr ?m"
    using DigitClassificationModel_epoch_example
      [where ?g0.0 = 0 and ?g1.0 = 0 and ?g2.0 = 0 and ?g3.0 = 0
         and accuracy = "\<lambda>m. 0"]
    by simp
  then have e0: "repeated k (DigitClassificationModel_epoch ?z ?lo) ?m = Inr ?m" for k
    by (rule repeated_fixed)
  have a: "DigitClassificationModel_train ?g ?hi ?m = Inr ?m'"
    using e1 DigitClassificationModel_train_epochs
      [where g = ?g and ds = ?hi and m = ?m and j = 1 and mj = ?m', THEN conjunct2,
        THEN conjunct1]
    by simp
  have b: "DigitClassificationModel_train ?z ?lo ?m = Inr ?m"
    using e0 DigitClassificationModel_train_epochs
      [where g = ?z and ds = ?lo and m = ?m, THEN conjunct2, THEN conjunct2]
    by simp
  from a b show ?thesis by simp
qed

section \<open>LanguageIDModel: training\<close>

lemma LanguageIDModel_train_body_Inr:
  assumes "LanguageIDModel_train_body g m (xs, y) = Inr m'"
  shows "\<exists>logits gs.
      LanguageIDModel_run m xs = Inr logits \<and>
      gs = g (SoftmaxLoss logits y)
             [Parameter (weight m), Parameter (weight_h m), Parameter (weight_f m)] \<and>
      3 \<le> length gs \<and>
      Parameter_update (weight m) (gs ! 0) (learning_rate m) = Inr (weight m') \<and>
      Parameter_update (weight_h m) (gs ! 1) (learning_rate m) = Inr (weight_h m') \<and>
      Parameter_update (weight_f m) (gs ! 2) (learning_rate m) = Inr (weight_f m') \<and>
      learning_rate m' = learning_rate m \<and> batch_size m' = batch_size m"
  using assms
  unfolding LanguageIDModel_train_body_def LanguageIDModel_get_loss_def
    Let_def prod.case and_then_Inr_iff index_Inr_iff
  by (auto dest!: built_Inr)

text \<open>Training keeps the shapes of the three parameters.\<close>

lemma LanguageIDModel_train_body_shape:
  assumes "LanguageIDModel_train_body g m (xs, y) = Inr m'"
    and "rect nc nh (weight m)" "rect nh nh (weight_h m)" "rect nh nd (weight_f m)"
  shows "rect nc nh (weight m') \<and> rect nh nh (weight_h m') \<and> rect nh nd (weight_f m')"
proof -
  from LanguageIDModel_train_body_Inr [OF assms(1)] obtain gs where
    u: "Parameter_update (weight m) (gs ! 0) (learning_rate m) = Inr (weight m')"
      "Parameter_update (weight_h m) (gs ! 1) (learning_rate m) = Inr (weight_h m')"
      "Parameter_update (weight_f m) (gs ! 2) (learning_rate m) = Inr (weight_f m')"
    by blast
  from Parameter_update_rect [OF u(1) assms(2)] Parameter_update_rect [OF u(2) assms(3)]
    Parameter_update_rect [OF u(3) assms(4)]
  show ?thesis by simp
qed

lemma LanguageIDModel_get_loss_Inr:
  "LanguageIDModel_run m xs = Inr logits \<Longrightarrow>
   LanguageIDModel_get_loss m xs y = Inr loss \<Longrightarrow> loss = SoftmaxLoss logits y"
  by (auto simp: LanguageIDModel_get_loss_def and_then_simps dest: built_Inr)

lemma LanguageIDModel_train_body_loss:
  "LanguageIDModel_train_body g m (xs, y) = Inr m' \<Longrightarrow>
   \<exists>loss. LanguageIDModel_get_loss m xs y = Inr loss"
  unfolding LanguageIDModel_train_body_def prod.case and_then_Inr_iff by blast

lemma LanguageIDModel_epoch_settings:
  assumes "LanguageIDModel_epoch g ds m = Inr m'"
  shows "learning_rate m' = learning_rate m \<and> batch_size m' = batch_size m"
proof -
  have "learning_rate m' = learning_rate m \<and> batch_size m' = batch_size m"
    if "for_each (LanguageIDModel_train_body g) bs m = Inr m'" for bs
    using that
  proof (induction bs arbitrary: m)
    case Nil
    then show ?case by simp
  next
    case (Cons xy bs)
    obtain xs y where xy: "xy = (xs, y)" by (cases xy)
    from Cons.prems obtain u where u: "LanguageIDModel_train_body g m (xs, y) = Inr u"
      "for_each (LanguageIDModel_train_body g) bs u = Inr m'"
      by (auto simp: and_then_Inr_iff xy)
    from LanguageIDModel_train_body_Inr [OF u(1)]
    have "learning_rate u = learning_rate m \<and> batch_size u = batch_size m" by auto
    with Cons.IH [OF u(2)] show ?case by simp
  qed
  with assms show ?thesis by (simp add: LanguageIDModel_epoch_def)
qed

lemma LanguageIDModel_epochs_settings:
  "repeated n (LanguageIDModel_epoch g ds) m = Inr m' \<Longrightarrow>
   learning_rate m' = learning_rate m \<and> batch_size m' = batch_size m"
proof (induction n arbitrary: m)
  case 0
  then show ?case by simp
next
  case (Suc n)
  then obtain u where u: "LanguageIDModel_epoch g ds m = Inr u"
    "repeated n (LanguageIDModel_epoch g ds) u = Inr m'"
    by (auto simp: and_then_Inr_iff)
  from Suc.IH [OF u(2)] LanguageIDModel_epoch_settings [OF u(1)] show ?case by simp
qed

lemma LanguageIDModel_train_stops:
  assumes "repeated (Suc n) (LanguageIDModel_epoch g ds) m = r"
    and "\<forall>k. 1 \<le> k \<and> k < Suc n \<longrightarrow>
           (\<exists>mk. repeated k (LanguageIDModel_epoch g ds) m = Inr mk \<and>
              get_validation_accuracy ds mk < 0.82)"
    and "\<forall>mn. r = Inr mn \<longrightarrow> get_validation_accuracy ds mn \<ge> 0.82"
  shows "LanguageIDModel_train g ds m = Some r"
  using assms
proof (induction n arbitrary: m)
  case 0
  then have r: "LanguageIDModel_epoch g ds m = r" by (simp only: repeated_one)
  show ?case
  proof (cases r)
    case (Inl e)
    with r show ?thesis by (subst LanguageIDModel_train.simps) simp
  next
    case (Inr mn)
    with r 0 show ?thesis by (subst LanguageIDModel_train.simps) simp
  qed
next
  case (Suc n)
  let ?E = "LanguageIDModel_epoch g ds"
  have "(1::nat) \<le> 1 \<and> 1 < Suc (Suc n)" by simp
  with Suc.prems(2) obtain m1 where m1: "repeated 1 ?E m = Inr m1"
    "get_validation_accuracy ds m1 < 0.82"
    by blast
  then have e: "?E m = Inr m1" by (simp only: One_nat_def repeated_one)
  have shift: "repeated (Suc k) ?E m = repeated k ?E m1" for k
    using e by (simp add: and_then_simps)
  have "LanguageIDModel_train g ds m1 = Some r"
  proof (rule Suc.IH)
    show "repeated (Suc n) ?E m1 = r" using Suc.prems(1) shift by simp
    show "\<forall>k. 1 \<le> k \<and> k < Suc n \<longrightarrow>
           (\<exists>mk. repeated k ?E m1 = Inr mk \<and> get_validation_accuracy ds mk < 0.82)"
    proof (intro allI impI)
      fix k assume "1 \<le> k \<and> k < Suc n"
      then have "1 \<le> Suc k \<and> Suc k < Suc (Suc n)" by simp
      with Suc.prems(2) have "\<exists>mk. repeated (Suc k) ?E m = Inr mk \<and>
          get_validation_accuracy ds mk < 0.82" by blast
      then show "\<exists>mk. repeated k ?E m1 = Inr mk \<and> get_validation_accuracy ds mk < 0.82"
        using shift by simp
    qed
    show "\<forall>mn. r = Inr mn \<longrightarrow> get_validation_accuracy ds mn \<ge> 0.82"
      by (rule Suc.prems(3))
  qed
  with e m1(2) show ?case by (subst LanguageIDModel_train.simps) simp
qed

lemma LanguageIDModel_train_Some:
  assumes "LanguageIDModel_train g ds m = Some r"
  shows "\<exists>n. repeated (Suc n) (LanguageIDModel_epoch g ds) m = r \<and>
      (\<forall>k. 1 \<le> k \<and> k < Suc n \<longrightarrow>
         (\<exists>mk. repeated k (LanguageIDModel_epoch g ds) m = Inr mk \<and>
            get_validation_accuracy ds mk < 0.82)) \<and>
      (\<forall>mn. r = Inr mn \<longrightarrow> get_validation_accuracy ds mn \<ge> 0.82)"
proof (rule LanguageIDModel_train.raw_induct
    [where P = "\<lambda>g ds m r. \<exists>n. repeated (Suc n) (LanguageIDModel_epoch g ds) m = r \<and>
      (\<forall>k. 1 \<le> k \<and> k < Suc n \<longrightarrow>
         (\<exists>mk. repeated k (LanguageIDModel_epoch g ds) m = Inr mk \<and>
            get_validation_accuracy ds mk < 0.82)) \<and>
      (\<forall>mn. r = Inr mn \<longrightarrow> get_validation_accuracy ds mn \<ge> 0.82)", OF _ assms])
  fix train :: "gradients \<Rightarrow> (node list, LanguageIDModel) dataset \<Rightarrow> LanguageIDModel \<Rightarrow>
    (error + LanguageIDModel) option"
  fix g ds m r
  assume IH: "\<And>g ds m r. train g ds m = Some r \<Longrightarrow>
     \<exists>n. repeated (Suc n) (LanguageIDModel_epoch g ds) m = r \<and>
      (\<forall>k. 1 \<le> k \<and> k < Suc n \<longrightarrow>
         (\<exists>mk. repeated k (LanguageIDModel_epoch g ds) m = Inr mk \<and>
            get_validation_accuracy ds mk < 0.82)) \<and>
      (\<forall>mn. r = Inr mn \<longrightarrow> get_validation_accuracy ds mn \<ge> 0.82)"
  assume step: "(case LanguageIDModel_epoch g ds m of
        Inl e \<Rightarrow> Some (Inl e)
      | Inr m' \<Rightarrow>
          if get_validation_accuracy ds m' \<ge> 0.82 then Some (Inr m')
          else train g ds m') = Some r"
  let ?E = "LanguageIDModel_epoch g ds"
  show "\<exists>n. repeated (Suc n) ?E m = r \<and>
      (\<forall>k. 1 \<le> k \<and> k < Suc n \<longrightarrow>
         (\<exists>mk. repeated k ?E m = Inr mk \<and> get_validation_accuracy ds mk < 0.82)) \<and>
      (\<forall>mn. r = Inr mn \<longrightarrow> get_validation_accuracy ds mn \<ge> 0.82)"
  proof (cases "?E m")
    case (Inl e)
    with step have "r = Inl e" by simp
    with Inl show ?thesis by (intro exI [of _ 0]) (simp add: and_then_simps)
  next
    case (Inr m1)
    show ?thesis
    proof (cases "get_validation_accuracy ds m1 \<ge> 0.82")
      case True
      with Inr step have "r = Inr m1" by simp
      with Inr True show ?thesis by (intro exI [of _ 0]) (simp add: and_then_simps)
    next
      case False
      with Inr step have "train g ds m1 = Some r" by simp
      from IH [OF this] obtain n where n: "repeated (Suc n) ?E m1 = r"
        "\<forall>k. 1 \<le> k \<and> k < Suc n \<longrightarrow>
           (\<exists>mk. repeated k ?E m1 = Inr mk \<and> get_validation_accuracy ds mk < 0.82)"
        "\<forall>mn. r = Inr mn \<longrightarrow> get_validation_accuracy ds mn \<ge> 0.82"
        by blast
      have shift: "repeated (Suc k) ?E m = repeated k ?E m1" for k
        using Inr by (simp add: and_then_simps)
      have "\<exists>mk. repeated k ?E m = Inr mk \<and> get_validation_accuracy ds mk < 0.82"
        if k: "1 \<le> k \<and> k < Suc (Suc n)" for k
      proof (cases k)
        case 0
        with k show ?thesis by simp
      next
        case (Suc k')
        show ?thesis
        proof (cases k')
          case 0
          with Suc Inr False show ?thesis by (simp add: and_then_simps)
        next
          case (Suc k'')
          with \<open>k = Suc k'\<close> k n(2) have "\<exists>mk. repeated k' ?E m1 = Inr mk \<and>
              get_validation_accuracy ds mk < 0.82"
            by auto
          with \<open>k = Suc k'\<close> shift show ?thesis by simp
        qed
      qed
      moreover have "repeated (Suc (Suc n)) ?E m = r"
        using n(1) shift [of "Suc n"] by simp
      ultimately show ?thesis using n(3) by (intro exI [of _ "Suc n"]) blast
    qed
  qed
qed

lemma LanguageIDModel_train_None_iff:
  "LanguageIDModel_train g ds m = None \<longleftrightarrow>
     (\<forall>n. 1 \<le> n \<longrightarrow>
        (\<exists>mn. repeated n (LanguageIDModel_epoch g ds) m = Inr mn \<and>
           get_validation_accuracy ds mn < 0.82))"
proof
  let ?E = "LanguageIDModel_epoch g ds"
  let ?going = "\<lambda>n. \<exists>mn. repeated n ?E m = Inr mn \<and> get_validation_accuracy ds mn < 0.82"
  assume none: "LanguageIDModel_train g ds m = None"
  show "\<forall>n. 1 \<le> n \<longrightarrow> ?going n"
  proof (rule ccontr)
    assume "\<not> (\<forall>n. 1 \<le> n \<longrightarrow> ?going n)"
    then have "\<exists>n. 1 \<le> n \<and> \<not> ?going n" by blast
    then obtain n where n: "1 \<le> n \<and> \<not> ?going n" "\<forall>k<n. \<not> (1 \<le> k \<and> \<not> ?going k)"
      using exists_least_iff [of "\<lambda>n. 1 \<le> n \<and> \<not> ?going n"] by blast
    from n(1) obtain j where j: "n = Suc j" by (cases n) auto
    have "LanguageIDModel_train g ds m = Some (repeated (Suc j) ?E m)"
    proof (rule LanguageIDModel_train_stops [OF refl])
      show "\<forall>k. 1 \<le> k \<and> k < Suc j \<longrightarrow> ?going k"
        using n(2) j by blast
      show "\<forall>mn. repeated (Suc j) ?E m = Inr mn \<longrightarrow> get_validation_accuracy ds mn \<ge> 0.82"
        using n(1) j by fastforce
    qed
    with none show False by simp
  qed
next
  let ?E = "LanguageIDModel_epoch g ds"
  assume going: "\<forall>n. 1 \<le> n \<longrightarrow>
     (\<exists>mn. repeated n ?E m = Inr mn \<and> get_validation_accuracy ds mn < 0.82)"
  show "LanguageIDModel_train g ds m = None"
  proof (cases "LanguageIDModel_train g ds m")
    case None
    then show ?thesis .
  next
    case (Some r)
    from LanguageIDModel_train_Some [OF this] obtain n where
      n: "repeated (Suc n) ?E m = r"
      "\<forall>mn. r = Inr mn \<longrightarrow> get_validation_accuracy ds mn \<ge> 0.82"
      by blast
    from going have "\<exists>mn. repeated (Suc n) ?E m = Inr mn \<and>
        get_validation_accuracy ds mn < 0.82"
      by (simp del: repeated.simps)
    with n show ?thesis by fastforce
  qed
qed

lemma LanguageIDModel_train_Some_iff:
  "LanguageIDModel_train g ds m = Some r \<longleftrightarrow>
     (\<exists>n. 1 \<le> n \<and> repeated n (LanguageIDModel_epoch g ds) m = r \<and>
        (\<forall>k. 1 \<le> k \<and> k < n \<longrightarrow>
           (\<exists>mk. repeated k (LanguageIDModel_epoch g ds) m = Inr mk \<and>
              get_validation_accuracy ds mk < 0.82)) \<and>
        (\<forall>mn. r = Inr mn \<longrightarrow> get_validation_accuracy ds mn \<ge> 0.82))"
proof
  assume "LanguageIDModel_train g ds m = Some r"
  from LanguageIDModel_train_Some [OF this] obtain n where
    "repeated (Suc n) (LanguageIDModel_epoch g ds) m = r \<and>
      (\<forall>k. 1 \<le> k \<and> k < Suc n \<longrightarrow>
         (\<exists>mk. repeated k (LanguageIDModel_epoch g ds) m = Inr mk \<and>
            get_validation_accuracy ds mk < 0.82)) \<and>
      (\<forall>mn. r = Inr mn \<longrightarrow> get_validation_accuracy ds mn \<ge> 0.82)"
    by blast
  then show "\<exists>n. 1 \<le> n \<and> repeated n (LanguageIDModel_epoch g ds) m = r \<and>
        (\<forall>k. 1 \<le> k \<and> k < n \<longrightarrow>
           (\<exists>mk. repeated k (LanguageIDModel_epoch g ds) m = Inr mk \<and>
              get_validation_accuracy ds mk < 0.82)) \<and>
        (\<forall>mn. r = Inr mn \<longrightarrow> get_validation_accuracy ds mn \<ge> 0.82)"
    by (intro exI [of _ "Suc n"]) (simp del: repeated.simps)
next
  assume "\<exists>n. 1 \<le> n \<and> repeated n (LanguageIDModel_epoch g ds) m = r \<and>
        (\<forall>k. 1 \<le> k \<and> k < n \<longrightarrow>
           (\<exists>mk. repeated k (LanguageIDModel_epoch g ds) m = Inr mk \<and>
              get_validation_accuracy ds mk < 0.82)) \<and>
        (\<forall>mn. r = Inr mn \<longrightarrow> get_validation_accuracy ds mn \<ge> 0.82)"
  then obtain n where n: "1 \<le> n" "repeated n (LanguageIDModel_epoch g ds) m = r"
    "\<forall>k. 1 \<le> k \<and> k < n \<longrightarrow>
       (\<exists>mk. repeated k (LanguageIDModel_epoch g ds) m = Inr mk \<and>
          get_validation_accuracy ds mk < 0.82)"
    "\<forall>mn. r = Inr mn \<longrightarrow> get_validation_accuracy ds mn \<ge> 0.82"
    by blast
  from n(1) obtain j where j: "n = Suc j" by (cases n) auto
  show "LanguageIDModel_train g ds m = Some r"
    by (rule LanguageIDModel_train_stops [where n = j]) (use n j in simp_all)
qed

text \<open>
  C6. A new model has batch size 2 and learning rate -0.005, and no epoch changes them;
  an epoch is the batches of size 2 of the dataset in order, each updating the three
  parameters at step size -0.005. \<open>train\<close> returns a model exactly when there is an
  epoch after which the validation accuracy is at least 0.82, all earlier epochs having
  ended below it, and then it returns the model of that first epoch, however late it
  comes. It never returns exactly when every epoch ends without an error and with an
  accuracy below 0.82; it raises exactly when an epoch raises before the threshold is
  reached.
\<close>

theorem LanguageIDModel_train_until_accuracy:
  "batch_size (LanguageIDModel_init ia ib ic) = 2 \<and>
   learning_rate (LanguageIDModel_init ia ib ic) = - 0.005 \<and>
   (repeated j (LanguageIDModel_epoch g ds) m = Inr mj \<longrightarrow>
      learning_rate mj = learning_rate m \<and> batch_size mj = batch_size m) \<and>
   (batch_size m = 2 \<longrightarrow>
      LanguageIDModel_epoch g ds m =
        for_each (LanguageIDModel_train_body g) (iterate_once ds 2) m) \<and>
   (learning_rate m = - 0.005 \<and> LanguageIDModel_train_body g m (xs, y) = Inr m' \<longrightarrow>
      (\<exists>logits gs.
         LanguageIDModel_run m xs = Inr logits \<and>
         gs = g (SoftmaxLoss logits y)
                [Parameter (weight m), Parameter (weight_h m), Parameter (weight_f m)] \<and>
         Parameter_update (weight m) (gs ! 0) (- 0.005) = Inr (weight m') \<and>
         Parameter_update (weight_h m) (gs ! 1) (- 0.005) = Inr (weight_h m') \<and>
         Parameter_update (weight_f m) (gs ! 2) (- 0.005) = Inr (weight_f m'))) \<and>
   (LanguageIDModel_train g ds m = Some (Inr m') \<longleftrightarrow>
      (\<exists>n. 1 \<le> n \<and> repeated n (LanguageIDModel_epoch g ds) m = Inr m' \<and>
         get_validation_accuracy ds m' \<ge> 0.82 \<and>
         (\<forall>k. 1 \<le> k \<and> k < n \<longrightarrow>
            (\<exists>mk. repeated k (LanguageIDModel_epoch g ds) m = Inr mk \<and>
               get_validation_accuracy ds mk < 0.82)))) \<and>
   (LanguageIDModel_train g ds m = None \<longleftrightarrow>
      (\<forall>n. 1 \<le> n \<longrightarrow>
         (\<exists>mn. repeated n (LanguageIDModel_epoch g ds) m = Inr mn \<and>
            get_validation_accuracy ds mn < 0.82))) \<and>
   (LanguageIDModel_train g ds m = Some (Inl e) \<longleftrightarrow>
      (\<exists>n. 1 \<le> n \<and> repeated n (LanguageIDModel_epoch g ds) m = Inl e \<and>
         (\<forall>k. 1 \<le> k \<and> k < n \<longrightarrow>
            (\<exists>mk. repeated k (LanguageIDModel_epoch g ds) m = Inr mk \<and>
               get_validation_accuracy ds mk < 0.82))))"
proof (intro conjI impI)
  show "batch_size (LanguageIDModel_init ia ib ic) = 2"
    by (simp add: LanguageIDModel_init_def)
  show "learning_rate (LanguageIDModel_init ia ib ic) = - 0.005"
    by (simp add: LanguageIDModel_init_def)
  show "learning_rate mj = learning_rate m" "batch_size mj = batch_size m"
    if "repeated j (LanguageIDModel_epoch g ds) m = Inr mj"
    using LanguageIDModel_epochs_settings [OF that] by simp_all
  show "LanguageIDModel_epoch g ds m =
      for_each (LanguageIDModel_train_body g) (iterate_once ds 2) m"
    if "batch_size m = 2"
    using that by (simp add: LanguageIDModel_epoch_def)
  show "\<exists>logits gs.
         LanguageIDModel_run m xs = Inr logits \<and>
         gs = g (SoftmaxLoss logits y)
                [Parameter (weight m), Parameter (weight_h m), Parameter (weight_f m)] \<and>
         Parameter_update (weight m) (gs ! 0) (- 0.005) = Inr (weight m') \<and>
         Parameter_update (weight_h m) (gs ! 1) (- 0.005) = Inr (weight_h m') \<and>
         Parameter_update (weight_f m) (gs ! 2) (- 0.005) = Inr (weight_f m')"
    if a: "learning_rate m = - 0.005 \<and> LanguageIDModel_train_body g m (xs, y) = Inr m'"
  proof -
    from a have b: "LanguageIDModel_train_body g m (xs, y) = Inr m'" by simp
    from LanguageIDModel_train_body_Inr [OF b] a show ?thesis by auto
  qed
  show "LanguageIDModel_train g ds m = Some (Inr m') \<longleftrightarrow>
      (\<exists>n. 1 \<le> n \<and> repeated n (LanguageIDModel_epoch g ds) m = Inr m' \<and>
         get_validation_accuracy ds m' \<ge> 0.82 \<and>
         (\<forall>k. 1 \<le> k \<and> k < n \<longrightarrow>
            (\<exists>mk. repeated k (LanguageIDModel_epoch g ds) m = Inr mk \<and>
               get_validation_accuracy ds mk < 0.82)))"
    unfolding LanguageIDModel_train_Some_iff by auto
  show "LanguageIDModel_train g ds m = None \<longleftrightarrow>
      (\<forall>n. 1 \<le> n \<longrightarrow>
         (\<exists>mn. repeated n (LanguageIDModel_epoch g ds) m = Inr mn \<and>
            get_validation_accuracy ds mn < 0.82))"
    by (rule LanguageIDModel_train_None_iff)
  show "LanguageIDModel_train g ds m = Some (Inl e) \<longleftrightarrow>
      (\<exists>n. 1 \<le> n \<and> repeated n (LanguageIDModel_epoch g ds) m = Inl e \<and>
         (\<forall>k. 1 \<le> k \<and> k < n \<longrightarrow>
            (\<exists>mk. repeated k (LanguageIDModel_epoch g ds) m = Inr mk \<and>
               get_validation_accuracy ds mk < 0.82)))"
    unfolding LanguageIDModel_train_Some_iff by auto
qed

lemma LanguageIDModel_epoch_example:
  "LanguageIDModel_epoch
     (\<lambda>loss ps. [Constant [[g0]], Constant [[g1]], Constant [[g2]]])
     \<lparr>iterate_once = \<lambda>n. [([Constant [[1]]], Constant [[1]])],
      get_validation_accuracy = accuracy\<rparr>
     \<lparr>num_chars = 1, languages = [''English''], learning_rate = - 0.005, batch_size = 2,
      weight = [[1]], weight_h = [[1]], weight_f = [[1]]\<rparr> =
   Inr \<lparr>num_chars = 1, languages = [''English''], learning_rate = - 0.005, batch_size = 2,
        weight = [[1 - 0.005 * g0]], weight_h = [[1 - 0.005 * g1]],
        weight_f = [[1 - 0.005 * g2]]\<rparr>"
proof -
  let ?m = "\<lparr>num_chars = 1, languages = [''English''], learning_rate = - 0.005,
      batch_size = 2, weight = [[1]], weight_h = [[1]], weight_f = [[1]]\<rparr>"
  let ?p = "Linear (Linear (Constant [[1]]) (Parameter [[1]])) (Parameter [[1]])"
  have run: "LanguageIDModel_run ?m [Constant [[1]]] = Inr ?p"
    by (simp add: LanguageIDModel_run_def nn_eval)
  have loss: "built (SoftmaxLoss ?p (Constant [[1]])) = Inr (SoftmaxLoss ?p (Constant [[1]]))"
    by (simp add: nn_eval)
  have "LanguageIDModel_train_body
      (\<lambda>loss ps. [Constant [[g0]], Constant [[g1]], Constant [[g2]]])
      ?m ([Constant [[1]]], Constant [[1]]) =
    Inr \<lparr>num_chars = 1, languages = [''English''], learning_rate = - 0.005, batch_size = 2,
        weight = [[1 - 0.005 * g0]], weight_h = [[1 - 0.005 * g1]],
        weight_f = [[1 - 0.005 * g2]]\<rparr>"
    using run loss
    by (simp add: LanguageIDModel_train_body_def LanguageIDModel_get_loss_def
        and_then_simps index_def Parameter_update_def same_shape_def is_tensor_def rect_def
        ncols_def tensor_add_def tensor_scale_def)
  then show ?thesis
    by (simp add: LanguageIDModel_epoch_def and_then_simps)
qed

theorem LanguageIDModel_train_until_accuracy_witness:
  "LanguageIDModel_train
     (\<lambda>loss ps. [Constant [[1]], Constant [[2]], Constant [[3]]])
     \<lparr>iterate_once = \<lambda>n. [([Constant [[1]]], Constant [[1]])],
      get_validation_accuracy = \<lambda>m. 1\<rparr>
     \<lparr>num_chars = 1, languages = [''English''], learning_rate = - 0.005, batch_size = 2,
      weight = [[1]], weight_h = [[1]], weight_f = [[1]]\<rparr> =
   Some (Inr \<lparr>num_chars = 1, languages = [''English''], learning_rate = - 0.005,
              batch_size = 2, weight = [[0.995]], weight_h = [[0.99]],
              weight_f = [[0.985]]\<rparr>) \<and>
   LanguageIDModel_train
     (\<lambda>loss ps. [Constant [[0]], Constant [[0]], Constant [[0]]])
     \<lparr>iterate_once = \<lambda>n. [([Constant [[1]]], Constant [[1]])],
      get_validation_accuracy = \<lambda>m. 0\<rparr>
     \<lparr>num_chars = 1, languages = [''English''], learning_rate = - 0.005, batch_size = 2,
      weight = [[1]], weight_h = [[1]], weight_f = [[1]]\<rparr> = None"
proof -
  let ?g = "\<lambda>(loss::node) (ps::node list). [Constant [[1]], Constant [[2]], Constant [[3]]]"
  let ?z = "\<lambda>(loss::node) (ps::node list). [Constant [[0]], Constant [[0]], Constant [[0]]]"
  let ?m = "\<lparr>num_chars = 1, languages = [''English''], learning_rate = - 0.005,
      batch_size = 2, weight = [[1]], weight_h = [[1]], weight_f = [[1]]\<rparr>"
  let ?m' = "\<lparr>num_chars = 1, languages = [''English''], learning_rate = - 0.005,
      batch_size = 2, weight = [[0.995]], weight_h = [[0.99]], weight_f = [[0.985]]\<rparr>"
  let ?hi = "\<lparr>iterate_once = \<lambda>n::nat. [([Constant [[1]]], Constant [[1]])],
      get_validation_accuracy = \<lambda>m::LanguageIDModel. 1::real\<rparr>"
  let ?lo = "\<lparr>iterate_once = \<lambda>n::nat. [([Constant [[1]]], Constant [[1]])],
      get_validation_accuracy = \<lambda>m::LanguageIDModel. 0::real\<rparr>"
  have e1: "repeated 1 (LanguageIDModel_epoch ?g ?hi) ?m = Inr ?m'"
    using LanguageIDModel_epoch_example
      [where ?g0.0 = 1 and ?g1.0 = 2 and ?g2.0 = 3 and accuracy = "\<lambda>m. 1"]
    by (simp add: and_then_simps)
  have "LanguageIDModel_epoch ?z ?lo ?m = Inr ?m"
    using LanguageIDModel_epoch_example
      [where ?g0.0 = 0 and ?g1.0 = 0 and ?g2.0 = 0 and accuracy = "\<lambda>m. 0"]
    by simp
  then have e0: "repeated k (LanguageIDModel_epoch ?z ?lo) ?m = Inr ?m" for k
    by (rule repeated_fixed)
  have "\<exists>n. 1 \<le> n \<and> repeated n (LanguageIDModel_epoch ?g ?hi) ?m = Inr ?m' \<and>
      get_validation_accuracy ?hi ?m' \<ge> 0.82 \<and>
      (\<forall>k. 1 \<le> k \<and> k < n \<longrightarrow>
         (\<exists>mk. repeated k (LanguageIDModel_epoch ?g ?hi) ?m = Inr mk \<and>
            get_validation_accuracy ?hi mk < 0.82))"
    using e1 by (intro exI [of _ 1]) simp
  then have a: "LanguageIDModel_train ?g ?hi ?m = Some (Inr ?m')"
    using LanguageIDModel_train_until_accuracy
      [where g = ?g and ds = ?hi and m = ?m and m' = ?m', THEN conjunct2, THEN conjunct2,
        THEN conjunct2, THEN conjunct2, THEN conjunct2, THEN conjunct1]
    by blast
  have "\<forall>n. 1 \<le> n \<longrightarrow>
      (\<exists>mn. repeated n (LanguageIDModel_epoch ?z ?lo) ?m = Inr mn \<and>
         get_validation_accuracy ?lo mn < 0.82)"
    using e0 by simp
  then have b: "LanguageIDModel_train ?z ?lo ?m = None"
    using LanguageIDModel_train_until_accuracy
      [where g = ?z and ds = ?lo and m = ?m, THEN conjunct2, THEN conjunct2,
        THEN conjunct2, THEN conjunct2, THEN conjunct2, THEN conjunct2, THEN conjunct1]
    by blast
  from a b show ?thesis by simp
qed

section \<open>The accuracy check comes after the epoch\<close>

text \<open>
  C10. In both training loops the validation accuracy is looked at only after a full
  epoch, and only at the model that epoch produced: if the first epoch raises, so does
  \<open>train\<close>; if the first epoch ends with an accuracy of at least the threshold (0.97 or
  0.82), \<open>train\<close> returns the model of that epoch; and whenever \<open>train\<close> returns a model,
  the first epoch was completed and the result is the model after one or more epochs.
  The accuracy of the model before training plays no part. An epoch is the batches of
  the dataset in order, and each batch updates every parameter with its gradient.
  In full: \<open>train\<close> is its first epoch followed by the test of the accuracy of the model
  that epoch produced, and, when that accuracy is below the threshold, by the rest of
  the loop from that model (the remaining 1999 turns for the digit model, \<open>train\<close> itself
  for the language model). So the result of \<open>train\<close> is determined by the epochs and by
  the accuracies after them alone: the digit loop is \<open>n\<close> epochs, ending at the first one
  that raises or reaches 0.97, or at the 2000th; the language loop returns at the first
  epoch that raises or reaches 0.82, and never returns exactly when every epoch completes
  below 0.82.
\<close>

theorem train_checks_accuracy_after_epoch:
  "(DigitClassificationModel_epoch g ds m = Inl e \<longrightarrow>
      DigitClassificationModel_train g ds m = Inl e) \<and>
   (DigitClassificationModel_epoch g ds m = Inr m1 \<and> get_validation_accuracy ds m1 \<ge> 0.97 \<longrightarrow>
      DigitClassificationModel_train g ds m = Inr m1) \<and>
   (DigitClassificationModel_train g ds m = Inr m' \<longrightarrow>
      (\<exists>n mf. 1 \<le> n \<and> DigitClassificationModel_epoch g ds m = Inr mf \<and>
         repeated n (DigitClassificationModel_epoch g ds) m = Inr m')) \<and>
   DigitClassificationModel_epoch g ds m =
     for_each (DigitClassificationModel_train_body g)
       (iterate_once ds (DigitClassificationModel.batch_size m)) m \<and>
   (DigitClassificationModel_train_body g m (x, y) = Inr m' \<longrightarrow>
      (\<exists>loss gs.
         DigitClassificationModel_get_loss m x y = Inr loss \<and>
         gs = g loss [Parameter (DigitClassificationModel.weight1 m),
                      Parameter (DigitClassificationModel.weight2 m),
                      Parameter (DigitClassificationModel.bias1 m),
                      Parameter (DigitClassificationModel.bias2 m)] \<and>
         Parameter_update (DigitClassificationModel.weight1 m) (gs ! 0)
           (DigitClassificationModel.learning_rate m) =
           Inr (DigitClassificationModel.weight1 m') \<and>
         Parameter_update (DigitClassificationModel.weight2 m) (gs ! 1)
           (DigitClassificationModel.learning_rate m) =
           Inr (DigitClassificationModel.weight2 m') \<and>
         Parameter_update (DigitClassificationModel.bias1 m) (gs ! 2)
           (DigitClassificationModel.learning_rate m) =
           Inr (DigitClassificationModel.bias1 m') \<and>
         Parameter_update (DigitClassificationModel.bias2 m) (gs ! 3)
           (DigitClassificationModel.learning_rate m) =
           Inr (DigitClassificationModel.bias2 m'))) \<and>
   (LanguageIDModel_epoch h dl l = Inl e \<longrightarrow> LanguageIDModel_train h dl l = Some (Inl e)) \<and>
   (LanguageIDModel_epoch h dl l = Inr l1 \<and> get_validation_accuracy dl l1 \<ge> 0.82 \<longrightarrow>
      LanguageIDModel_train h dl l = Some (Inr l1)) \<and>
   (LanguageIDModel_train h dl l = Some (Inr l') \<longrightarrow>
      (\<exists>n lf. 1 \<le> n \<and> LanguageIDModel_epoch h dl l = Inr lf \<and>
         repeated n (LanguageIDModel_epoch h dl) l = Inr l')) \<and>
   LanguageIDModel_epoch h dl l =
     for_each (LanguageIDModel_train_body h) (iterate_once dl (batch_size l)) l \<and>
   (LanguageIDModel_train_body h l (xs, y) = Inr l' \<longrightarrow>
      (\<exists>loss gs.
         LanguageIDModel_get_loss l xs y = Inr loss \<and>
         gs = h loss [Parameter (weight l), Parameter (weight_h l), Parameter (weight_f l)] \<and>
         Parameter_update (weight l) (gs ! 0) (learning_rate l) = Inr (weight l') \<and>
         Parameter_update (weight_h l) (gs ! 1) (learning_rate l) = Inr (weight_h l') \<and>
         Parameter_update (weight_f l) (gs ! 2) (learning_rate l) = Inr (weight_f l'))) \<and>
   DigitClassificationModel_train g ds m =
     and_then (DigitClassificationModel_epoch g ds m) (\<lambda>m2.
       if get_validation_accuracy ds m2 \<ge> 0.97 then Inr m2
       else DigitClassificationModel_train_loop g ds [1..<2000] m2) \<and>
   (DigitClassificationModel_epoch g ds m = Inr m1 \<and> get_validation_accuracy ds m1 < 0.97 \<longrightarrow>
      DigitClassificationModel_train g ds m =
        DigitClassificationModel_train_loop g ds [1..<2000] m1) \<and>
   (\<exists>n. 1 \<le> n \<and> n \<le> 2000 \<and>
      DigitClassificationModel_train g ds m =
        repeated n (DigitClassificationModel_epoch g ds) m \<and>
      (\<forall>k. 1 \<le> k \<and> k < n \<longrightarrow>
         (\<exists>mk. repeated k (DigitClassificationModel_epoch g ds) m = Inr mk \<and>
            get_validation_accuracy ds mk < 0.97)) \<and>
      (n < 2000 \<longrightarrow>
         (\<forall>mn. repeated n (DigitClassificationModel_epoch g ds) m = Inr mn \<longrightarrow>
            get_validation_accuracy ds mn \<ge> 0.97))) \<and>
   LanguageIDModel_train h dl l =
     (case LanguageIDModel_epoch h dl l of
        Inl e' \<Rightarrow> Some (Inl e')
      | Inr l2 \<Rightarrow>
          if get_validation_accuracy dl l2 \<ge> 0.82 then Some (Inr l2)
          else LanguageIDModel_train h dl l2) \<and>
   (LanguageIDModel_epoch h dl l = Inr l1 \<and> get_validation_accuracy dl l1 < 0.82 \<longrightarrow>
      LanguageIDModel_train h dl l = LanguageIDModel_train h dl l1) \<and>
   (LanguageIDModel_train h dl l = Some r \<longleftrightarrow>
      (\<exists>n. 1 \<le> n \<and> repeated n (LanguageIDModel_epoch h dl) l = r \<and>
         (\<forall>k. 1 \<le> k \<and> k < n \<longrightarrow>
            (\<exists>mk. repeated k (LanguageIDModel_epoch h dl) l = Inr mk \<and>
               get_validation_accuracy dl mk < 0.82)) \<and>
         (\<forall>mn. r = Inr mn \<longrightarrow> get_validation_accuracy dl mn \<ge> 0.82))) \<and>
   (LanguageIDModel_train h dl l = None \<longleftrightarrow>
      (\<forall>n. 1 \<le> n \<longrightarrow>
         (\<exists>mn. repeated n (LanguageIDModel_epoch h dl) l = Inr mn \<and>
            get_validation_accuracy dl mn < 0.82)))"
proof (intro conjI impI)
  show "DigitClassificationModel_train g ds m = Inl e"
    if "DigitClassificationModel_epoch g ds m = Inl e"
    using that by (simp add: DigitClassificationModel_train_first_epoch and_then_simps)
  show "DigitClassificationModel_train g ds m = Inr m1"
    if "DigitClassificationModel_epoch g ds m = Inr m1 \<and> get_validation_accuracy ds m1 \<ge> 0.97"
    using that by (simp add: DigitClassificationModel_train_first_epoch and_then_simps)
  show "\<exists>n mf. 1 \<le> n \<and> DigitClassificationModel_epoch g ds m = Inr mf \<and>
         repeated n (DigitClassificationModel_epoch g ds) m = Inr m'"
    if t: "DigitClassificationModel_train g ds m = Inr m'"
  proof -
    from DigitClassificationModel_train_loop_stops [of "[0..<2000]" g ds m]
    obtain n where n: "1 \<le> n"
      "DigitClassificationModel_train g ds m =
         repeated n (DigitClassificationModel_epoch g ds) m"
      unfolding DigitClassificationModel_train_def by auto
    from n(1) obtain j where j: "n = Suc j" by (cases n) auto
    from n(2) t j have "and_then (DigitClassificationModel_epoch g ds m)
        (repeated j (DigitClassificationModel_epoch g ds)) = Inr m'"
      by simp
    then obtain mf where "DigitClassificationModel_epoch g ds m = Inr mf"
      unfolding and_then_Inr_iff by blast
    with n t show ?thesis by (intro exI [of _ n] exI [of _ mf]) simp
  qed
  show "DigitClassificationModel_epoch g ds m =
     for_each (DigitClassificationModel_train_body g)
       (iterate_once ds (DigitClassificationModel.batch_size m)) m"
    by (simp add: DigitClassificationModel_epoch_def)
  show "\<exists>loss gs.
         DigitClassificationModel_get_loss m x y = Inr loss \<and>
         gs = g loss [Parameter (DigitClassificationModel.weight1 m),
                      Parameter (DigitClassificationModel.weight2 m),
                      Parameter (DigitClassificationModel.bias1 m),
                      Parameter (DigitClassificationModel.bias2 m)] \<and>
         Parameter_update (DigitClassificationModel.weight1 m) (gs ! 0)
           (DigitClassificationModel.learning_rate m) =
           Inr (DigitClassificationModel.weight1 m') \<and>
         Parameter_update (DigitClassificationModel.weight2 m) (gs ! 1)
           (DigitClassificationModel.learning_rate m) =
           Inr (DigitClassificationModel.weight2 m') \<and>
         Parameter_update (DigitClassificationModel.bias1 m) (gs ! 2)
           (DigitClassificationModel.learning_rate m) =
           Inr (DigitClassificationModel.bias1 m') \<and>
         Parameter_update (DigitClassificationModel.bias2 m) (gs ! 3)
           (DigitClassificationModel.learning_rate m) =
           Inr (DigitClassificationModel.bias2 m')"
    if b: "DigitClassificationModel_train_body g m (x, y) = Inr m'"
  proof -
    from DigitClassificationModel_train_body_loss [OF b] obtain loss where
      l: "DigitClassificationModel_get_loss m x y = Inr loss" by blast
    from DigitClassificationModel_train_body_Inr [OF b] obtain logits gs where
      r: "DigitClassificationModel_run m x = Inr logits"
      and gs: "gs = g (SoftmaxLoss logits y)
             [Parameter (DigitClassificationModel.weight1 m),
              Parameter (DigitClassificationModel.weight2 m),
              Parameter (DigitClassificationModel.bias1 m),
              Parameter (DigitClassificationModel.bias2 m)]"
      and u: "Parameter_update (DigitClassificationModel.weight1 m) (gs ! 0)
          (DigitClassificationModel.learning_rate m) = Inr (DigitClassificationModel.weight1 m')"
        "Parameter_update (DigitClassificationModel.weight2 m) (gs ! 1)
          (DigitClassificationModel.learning_rate m) = Inr (DigitClassificationModel.weight2 m')"
        "Parameter_update (DigitClassificationModel.bias1 m) (gs ! 2)
          (DigitClassificationModel.learning_rate m) = Inr (DigitClassificationModel.bias1 m')"
        "Parameter_update (DigitClassificationModel.bias2 m) (gs ! 3)
          (DigitClassificationModel.learning_rate m) = Inr (DigitClassificationModel.bias2 m')"
      by (elim exE conjE)
    from DigitClassificationModel_get_loss_Inr [OF r l] have "loss = SoftmaxLoss logits y" .
    with l gs u show ?thesis by (intro exI [of _ loss] exI [of _ gs] conjI) simp_all
  qed
  show "LanguageIDModel_train h dl l = Some (Inl e)"
    if "LanguageIDModel_epoch h dl l = Inl e"
    using that by (subst LanguageIDModel_train.simps) simp
  show "LanguageIDModel_train h dl l = Some (Inr l1)"
    if "LanguageIDModel_epoch h dl l = Inr l1 \<and> get_validation_accuracy dl l1 \<ge> 0.82"
    using that by (subst LanguageIDModel_train.simps) simp
  show "\<exists>n lf. 1 \<le> n \<and> LanguageIDModel_epoch h dl l = Inr lf \<and>
         repeated n (LanguageIDModel_epoch h dl) l = Inr l'"
    if t: "LanguageIDModel_train h dl l = Some (Inr l')"
  proof -
    from LanguageIDModel_train_Some [OF t] obtain n where
      n: "repeated (Suc n) (LanguageIDModel_epoch h dl) l = Inr l'" by blast
    then have "and_then (LanguageIDModel_epoch h dl l)
        (repeated n (LanguageIDModel_epoch h dl)) = Inr l'"
      by simp
    then obtain lf where "LanguageIDModel_epoch h dl l = Inr lf"
      unfolding and_then_Inr_iff by blast
    with n show ?thesis by (intro exI [of _ "Suc n"] exI [of _ lf]) (simp del: repeated.simps)
  qed
  show "LanguageIDModel_epoch h dl l =
     for_each (LanguageIDModel_train_body h) (iterate_once dl (batch_size l)) l"
    by (simp add: LanguageIDModel_epoch_def)
  show "\<exists>loss gs.
         LanguageIDModel_get_loss l xs y = Inr loss \<and>
         gs = h loss [Parameter (weight l), Parameter (weight_h l), Parameter (weight_f l)] \<and>
         Parameter_update (weight l) (gs ! 0) (learning_rate l) = Inr (weight l') \<and>
         Parameter_update (weight_h l) (gs ! 1) (learning_rate l) = Inr (weight_h l') \<and>
         Parameter_update (weight_f l) (gs ! 2) (learning_rate l) = Inr (weight_f l')"
    if b: "LanguageIDModel_train_body h l (xs, y) = Inr l'"
  proof -
    from LanguageIDModel_train_body_loss [OF b] obtain loss where
      ls: "LanguageIDModel_get_loss l xs y = Inr loss" by blast
    from LanguageIDModel_train_body_Inr [OF b] obtain logits gs where
      r: "LanguageIDModel_run l xs = Inr logits"
      and gs: "gs = h (SoftmaxLoss logits y)
             [Parameter (weight l), Parameter (weight_h l), Parameter (weight_f l)]"
      and u: "Parameter_update (weight l) (gs ! 0) (learning_rate l) = Inr (weight l')"
        "Parameter_update (weight_h l) (gs ! 1) (learning_rate l) = Inr (weight_h l')"
        "Parameter_update (weight_f l) (gs ! 2) (learning_rate l) = Inr (weight_f l')"
      by (elim exE conjE)
    from LanguageIDModel_get_loss_Inr [OF r ls] have "loss = SoftmaxLoss logits y" .
    with ls gs u show ?thesis by (intro exI [of _ loss] exI [of _ gs] conjI) simp_all
  qed
  show "DigitClassificationModel_train g ds m =
     and_then (DigitClassificationModel_epoch g ds m) (\<lambda>m2.
       if get_validation_accuracy ds m2 \<ge> 0.97 then Inr m2
       else DigitClassificationModel_train_loop g ds [1..<2000] m2)"
    by (rule DigitClassificationModel_train_first_epoch)
  show "DigitClassificationModel_train g ds m =
        DigitClassificationModel_train_loop g ds [1..<2000] m1"
    if a: "DigitClassificationModel_epoch g ds m = Inr m1 \<and>
      get_validation_accuracy ds m1 < 0.97"
  proof -
    from a have c: "\<not> get_validation_accuracy ds m1 \<ge> 0.97" by (simp only: not_le)
    from a have e: "DigitClassificationModel_epoch g ds m = Inr m1" by (rule conjunct1)
    show ?thesis
      by (simp only: DigitClassificationModel_train_first_epoch e and_then_simps c if_False)
  qed
  show "\<exists>n. 1 \<le> n \<and> n \<le> 2000 \<and>
      DigitClassificationModel_train g ds m =
        repeated n (DigitClassificationModel_epoch g ds) m \<and>
      (\<forall>k. 1 \<le> k \<and> k < n \<longrightarrow>
         (\<exists>mk. repeated k (DigitClassificationModel_epoch g ds) m = Inr mk \<and>
            get_validation_accuracy ds mk < 0.97)) \<and>
      (n < 2000 \<longrightarrow>
         (\<forall>mn. repeated n (DigitClassificationModel_epoch g ds) m = Inr mn \<longrightarrow>
            get_validation_accuracy ds mn \<ge> 0.97))"
  proof -
    from DigitClassificationModel_train_loop_stops [of "[0..<2000]" g ds m]
    obtain n where n: "n \<le> 2000" "1 \<le> n"
      "DigitClassificationModel_train g ds m =
         repeated n (DigitClassificationModel_epoch g ds) m"
      "\<forall>k. 1 \<le> k \<and> k < n \<longrightarrow>
         (\<exists>mk. repeated k (DigitClassificationModel_epoch g ds) m = Inr mk \<and>
            get_validation_accuracy ds mk < 0.97)"
      "n < 2000 \<longrightarrow>
         (\<forall>mn. repeated n (DigitClassificationModel_epoch g ds) m = Inr mn \<longrightarrow>
            get_validation_accuracy ds mn \<ge> 0.97)"
      unfolding DigitClassificationModel_train_def by auto
    then show ?thesis by blast
  qed
  show "LanguageIDModel_train h dl l =
     (case LanguageIDModel_epoch h dl l of
        Inl e' \<Rightarrow> Some (Inl e')
      | Inr l2 \<Rightarrow>
          if get_validation_accuracy dl l2 \<ge> 0.82 then Some (Inr l2)
          else LanguageIDModel_train h dl l2)"
    by (rule LanguageIDModel_train.simps)
  show "LanguageIDModel_train h dl l = LanguageIDModel_train h dl l1"
    if a: "LanguageIDModel_epoch h dl l = Inr l1 \<and> get_validation_accuracy dl l1 < 0.82"
  proof -
    from a have c: "\<not> get_validation_accuracy dl l1 \<ge> 0.82" by (simp only: not_le)
    from a have e: "LanguageIDModel_epoch h dl l = Inr l1" by (rule conjunct1)
    have "LanguageIDModel_train h dl l =
        (case LanguageIDModel_epoch h dl l of
           Inl e' \<Rightarrow> Some (Inl e')
         | Inr l2 \<Rightarrow>
             if get_validation_accuracy dl l2 \<ge> 0.82 then Some (Inr l2)
             else LanguageIDModel_train h dl l2)"
      by (rule LanguageIDModel_train.simps)
    also have "\<dots> = LanguageIDModel_train h dl l1"
      by (simp only: e sum.case c if_False)
    finally show ?thesis .
  qed
  show "LanguageIDModel_train h dl l = Some r \<longleftrightarrow>
      (\<exists>n. 1 \<le> n \<and> repeated n (LanguageIDModel_epoch h dl) l = r \<and>
         (\<forall>k. 1 \<le> k \<and> k < n \<longrightarrow>
            (\<exists>mk. repeated k (LanguageIDModel_epoch h dl) l = Inr mk \<and>
               get_validation_accuracy dl mk < 0.82)) \<and>
         (\<forall>mn. r = Inr mn \<longrightarrow> get_validation_accuracy dl mn \<ge> 0.82))"
    by (rule LanguageIDModel_train_Some_iff)
  show "LanguageIDModel_train h dl l = None \<longleftrightarrow>
      (\<forall>n. 1 \<le> n \<longrightarrow>
         (\<exists>mn. repeated n (LanguageIDModel_epoch h dl) l = Inr mn \<and>
            get_validation_accuracy dl mn < 0.82))"
    by (rule LanguageIDModel_train_None_iff)
qed

theorem train_checks_accuracy_after_epoch_witness:
  "get_validation_accuracy
     \<lparr>iterate_once = \<lambda>n. [(Constant [[1]], Constant [[1]])],
      get_validation_accuracy = \<lambda>m::DigitClassificationModel. 1\<rparr>
     \<lparr>DigitClassificationModel.batch_size = 10, weight1 = [[1]], bias1 = [[0]],
      weight2 = [[1]], bias2 = [[0]], learning_rate = - 0.02\<rparr> \<ge> 0.97 \<and>
   DigitClassificationModel_train
     (\<lambda>loss ps. [Constant [[1]], Constant [[2]], Constant [[3]], Constant [[4]]])
     \<lparr>iterate_once = \<lambda>n. [(Constant [[1]], Constant [[1]])],
      get_validation_accuracy = \<lambda>m. 1\<rparr>
     \<lparr>DigitClassificationModel.batch_size = 10, weight1 = [[1]], bias1 = [[0]],
      weight2 = [[1]], bias2 = [[0]], learning_rate = - 0.02\<rparr> =
   Inr \<lparr>DigitClassificationModel.batch_size = 10, weight1 = [[0.98]], bias1 = [[- 0.06]],
        weight2 = [[0.96]], bias2 = [[- 0.08]], learning_rate = - 0.02\<rparr> \<and>
   get_validation_accuracy
     \<lparr>iterate_once = \<lambda>n. [([Constant [[1]]], Constant [[1]])],
      get_validation_accuracy = \<lambda>m::LanguageIDModel. 1\<rparr>
     \<lparr>num_chars = 1, languages = [''English''], learning_rate = - 0.005, batch_size = 2,
      weight = [[1]], weight_h = [[1]], weight_f = [[1]]\<rparr> \<ge> 0.82 \<and>
   LanguageIDModel_train
     (\<lambda>loss ps. [Constant [[1]], Constant [[2]], Constant [[3]]])
     \<lparr>iterate_once = \<lambda>n. [([Constant [[1]]], Constant [[1]])],
      get_validation_accuracy = \<lambda>m. 1\<rparr>
     \<lparr>num_chars = 1, languages = [''English''], learning_rate = - 0.005, batch_size = 2,
      weight = [[1]], weight_h = [[1]], weight_f = [[1]]\<rparr> =
   Some (Inr \<lparr>num_chars = 1, languages = [''English''], learning_rate = - 0.005,
              batch_size = 2, weight = [[0.995]], weight_h = [[0.99]],
              weight_f = [[0.985]]\<rparr>) \<and>
   get_validation_accuracy
     \<lparr>iterate_once = \<lambda>n. [(Constant [[1]], Constant [[1]])],
      get_validation_accuracy =
        \<lambda>m. if DigitClassificationModel.weight1 m = [[1]] then 1 else 0\<rparr>
     \<lparr>DigitClassificationModel.batch_size = 10, weight1 = [[1]], bias1 = [[0]],
      weight2 = [[1]], bias2 = [[0]], learning_rate = - 0.02\<rparr> \<ge> 0.97 \<and>
   DigitClassificationModel_train
     (\<lambda>loss ps. [Constant [[1]], Constant [[2]], Constant [[3]], Constant [[4]]])
     \<lparr>iterate_once = \<lambda>n. [(Constant [[1]], Constant [[1]])],
      get_validation_accuracy =
        \<lambda>m. if DigitClassificationModel.weight1 m = [[1]] then 1 else 0\<rparr>
     \<lparr>DigitClassificationModel.batch_size = 10, weight1 = [[1]], bias1 = [[0]],
      weight2 = [[1]], bias2 = [[0]], learning_rate = - 0.02\<rparr> =
   DigitClassificationModel_train_loop
     (\<lambda>loss ps. [Constant [[1]], Constant [[2]], Constant [[3]], Constant [[4]]])
     \<lparr>iterate_once = \<lambda>n. [(Constant [[1]], Constant [[1]])],
      get_validation_accuracy =
        \<lambda>m. if DigitClassificationModel.weight1 m = [[1]] then 1 else 0\<rparr>
     [1..<2000]
     \<lparr>DigitClassificationModel.batch_size = 10, weight1 = [[0.98]], bias1 = [[- 0.06]],
      weight2 = [[0.96]], bias2 = [[- 0.08]], learning_rate = - 0.02\<rparr> \<and>
   get_validation_accuracy
     \<lparr>iterate_once = \<lambda>n. [([Constant [[1]]], Constant [[1]])],
      get_validation_accuracy = \<lambda>m. if weight m = [[1]] then 1 else 0\<rparr>
     \<lparr>num_chars = 1, languages = [''English''], learning_rate = - 0.005, batch_size = 2,
      weight = [[1]], weight_h = [[1]], weight_f = [[1]]\<rparr> \<ge> 0.82 \<and>
   LanguageIDModel_train
     (\<lambda>loss ps. [Constant [[1]], Constant [[2]], Constant [[3]]])
     \<lparr>iterate_once = \<lambda>n. [([Constant [[1]]], Constant [[1]])],
      get_validation_accuracy = \<lambda>m. if weight m = [[1]] then 1 else 0\<rparr>
     \<lparr>num_chars = 1, languages = [''English''], learning_rate = - 0.005, batch_size = 2,
      weight = [[1]], weight_h = [[1]], weight_f = [[1]]\<rparr> =
   LanguageIDModel_train
     (\<lambda>loss ps. [Constant [[1]], Constant [[2]], Constant [[3]]])
     \<lparr>iterate_once = \<lambda>n. [([Constant [[1]]], Constant [[1]])],
      get_validation_accuracy = \<lambda>m. if weight m = [[1]] then 1 else 0\<rparr>
     \<lparr>num_chars = 1, languages = [''English''], learning_rate = - 0.005, batch_size = 2,
      weight = [[0.995]], weight_h = [[0.99]], weight_f = [[0.985]]\<rparr>"
proof -
  let ?g = "\<lambda>(loss::node) (ps::node list).
    [Constant [[1]], Constant [[2]], Constant [[3]], Constant [[4]]]"
  let ?ds = "\<lparr>iterate_once = \<lambda>n::nat. [(Constant [[1]], Constant [[1]])],
      get_validation_accuracy = \<lambda>m::DigitClassificationModel. 1::real\<rparr>"
  let ?dp = "\<lparr>iterate_once = \<lambda>n::nat. [(Constant [[1]], Constant [[1]])],
      get_validation_accuracy =
        \<lambda>m. if DigitClassificationModel.weight1 m = [[1]] then 1 else 0::real\<rparr>"
  let ?m = "\<lparr>DigitClassificationModel.batch_size = 10, weight1 = [[1]], bias1 = [[0]],
      weight2 = [[1]], bias2 = [[0]], learning_rate = - 0.02\<rparr>"
  let ?m' = "\<lparr>DigitClassificationModel.batch_size = 10, weight1 = [[0.98]],
      bias1 = [[- 0.06]], weight2 = [[0.96]], bias2 = [[- 0.08]], learning_rate = - 0.02\<rparr>"
  let ?h = "\<lambda>(loss::node) (ps::node list). [Constant [[1]], Constant [[2]], Constant [[3]]]"
  let ?dl = "\<lparr>iterate_once = \<lambda>n::nat. [([Constant [[1]]], Constant [[1]])],
      get_validation_accuracy = \<lambda>m::LanguageIDModel. 1::real\<rparr>"
  let ?dq = "\<lparr>iterate_once = \<lambda>n::nat. [([Constant [[1]]], Constant [[1]])],
      get_validation_accuracy = \<lambda>m. if weight m = [[1]] then 1 else 0::real\<rparr>"
  let ?l = "\<lparr>num_chars = 1, languages = [''English''], learning_rate = - 0.005,
      batch_size = 2, weight = [[1]], weight_h = [[1]], weight_f = [[1]]\<rparr>"
  let ?l' = "\<lparr>num_chars = 1, languages = [''English''], learning_rate = - 0.005,
      batch_size = 2, weight = [[0.995]], weight_h = [[0.99]], weight_f = [[0.985]]\<rparr>"
  have d: "DigitClassificationModel_epoch ?g ?ds ?m = Inr ?m' \<and>
      get_validation_accuracy ?ds ?m' \<ge> 0.97"
    using DigitClassificationModel_epoch_example
      [where ?g0.0 = 1 and ?g1.0 = 2 and ?g2.0 = 3 and ?g3.0 = 4
         and accuracy = "\<lambda>m. 1"]
    by simp
  have l: "LanguageIDModel_epoch ?h ?dl ?l = Inr ?l' \<and> get_validation_accuracy ?dl ?l' \<ge> 0.82"
    using LanguageIDModel_epoch_example
      [where ?g0.0 = 1 and ?g1.0 = 2 and ?g2.0 = 3 and accuracy = "\<lambda>m. 1"]
    by simp
  have dp: "DigitClassificationModel_epoch ?g ?dp ?m = Inr ?m' \<and>
      get_validation_accuracy ?dp ?m' < 0.97"
    using DigitClassificationModel_epoch_example
      [where ?g0.0 = 1 and ?g1.0 = 2 and ?g2.0 = 3 and ?g3.0 = 4
         and accuracy = "\<lambda>m. if DigitClassificationModel.weight1 m = [[1]] then 1 else 0"]
    by simp
  have lq: "LanguageIDModel_epoch ?h ?dq ?l = Inr ?l' \<and> get_validation_accuracy ?dq ?l' < 0.82"
    using LanguageIDModel_epoch_example
      [where ?g0.0 = 1 and ?g1.0 = 2 and ?g2.0 = 3
         and accuracy = "\<lambda>m. if weight m = [[1]] then 1 else 0"]
    by simp
  have before: "get_validation_accuracy ?ds ?m \<ge> 0.97" "get_validation_accuracy ?dl ?l \<ge> 0.82"
    "get_validation_accuracy ?dp ?m \<ge> 0.97" "get_validation_accuracy ?dq ?l \<ge> 0.82"
    by simp_all
  from d train_checks_accuracy_after_epoch
    [where g = ?g and ds = ?ds and m = ?m and ?m1.0 = ?m', THEN conjunct2, THEN conjunct1]
  have a: "DigitClassificationModel_train ?g ?ds ?m = Inr ?m'" by blast
  from l train_checks_accuracy_after_epoch
    [where h = ?h and dl = ?dl and l = ?l and ?l1.0 = ?l', THEN conjunct2, THEN conjunct2,
      THEN conjunct2, THEN conjunct2, THEN conjunct2, THEN conjunct2, THEN conjunct1]
  have b: "LanguageIDModel_train ?h ?dl ?l = Some (Inr ?l')" by blast
  from dp train_checks_accuracy_after_epoch
    [where g = ?g and ds = ?dp and m = ?m and ?m1.0 = ?m', THEN conjunct2, THEN conjunct2,
      THEN conjunct2, THEN conjunct2, THEN conjunct2, THEN conjunct2, THEN conjunct2,
      THEN conjunct2, THEN conjunct2, THEN conjunct2, THEN conjunct2, THEN conjunct1]
  have c: "DigitClassificationModel_train ?g ?dp ?m =
      DigitClassificationModel_train_loop ?g ?dp [1..<2000] ?m'" by blast
  from lq train_checks_accuracy_after_epoch
    [where h = ?h and dl = ?dq and l = ?l and ?l1.0 = ?l', THEN conjunct2, THEN conjunct2,
      THEN conjunct2, THEN conjunct2, THEN conjunct2, THEN conjunct2, THEN conjunct2,
      THEN conjunct2, THEN conjunct2, THEN conjunct2, THEN conjunct2, THEN conjunct2,
      THEN conjunct2, THEN conjunct2, THEN conjunct1]
  have e: "LanguageIDModel_train ?h ?dq ?l = LanguageIDModel_train ?h ?dq ?l'" by blast
  show ?thesis
    by (intro conjI) (rule before a b c e)+
qed

end
